theory Spec2Isabelle
  imports
    Complex_Main
    "HOL-Library.Char_ord"
    "HOL-Library.List_Lexorder"
    "HOL-Library.Multiset"
    "HOL-Library.Word"
begin

section \<open>JSON values and \<^verbatim>\<open>JSON.stringify\<close> with an array replacer\<close>

text \<open>
  A request body is a JavaScript object. An object is modelled as an association list in
  insertion order (the order \<^verbatim>\<open>Object.keys\<close> enumerates), an array as a list. Numbers are
  rationals; how a number prints (\<^verbatim>\<open>Number.prototype.toString\<close>) is a parameter of the
  serialisation, named \<open>numberToString\<close>.
\<close>

datatype json =
    JNull
  | JBool bool
  | JNum rat
  | JStr string
  | JArr "json list"
  | JObj "(string \<times> json) list"

definition hexDigit :: "nat \<Rightarrow> char" where
  "hexDigit n = ''0123456789abcdef'' ! (n mod 16)"

definition backslash :: char where
  "backslash = CHR 0x5C"

definition dquote :: char where
  "dquote = CHR 0x22"

text \<open>ECMAScript \<^verbatim>\<open>QuoteJSONString\<close>, on strings of one-byte characters.\<close>

definition escapeChar :: "char \<Rightarrow> string" where
  "escapeChar c =
     (let n = (of_char c :: nat) in
      if n = 0x08 then [backslash, CHR ''b'']
      else if n = 0x09 then [backslash, CHR ''t'']
      else if n = 0x0A then [backslash, CHR ''n'']
      else if n = 0x0C then [backslash, CHR ''f'']
      else if n = 0x0D then [backslash, CHR ''r'']
      else if n = 0x22 then [backslash, dquote]
      else if n = 0x5C then [backslash, backslash]
      else if n < 0x20
        then [backslash, CHR ''u'', CHR ''0'', CHR ''0'', hexDigit (n div 16), hexDigit n]
      else [c])"

definition QuoteJSONString :: "string \<Rightarrow> string" where
  "QuoteJSONString s = dquote # concat (map escapeChar s) @ [dquote]"

fun join :: "string \<Rightarrow> string list \<Rightarrow> string" where
  "join sep [] = []"
| "join sep [x] = x"
| "join sep (x # y # ys) = x @ sep @ join sep (y # ys)"

text \<open>
  ECMAScript \<^verbatim>\<open>SerializeJSONProperty\<close> / \<^verbatim>\<open>SerializeJSONObject\<close> /
  \<^verbatim>\<open>SerializeJSONArray\<close> without indentation. \<open>PropertyList\<close> is \<open>Some K\<close> when the
  replacer is an array: then, for \<^emph>\<open>every\<close> object met during the traversal (the top-level one
  and each nested one), exactly the keys of \<open>K\<close> are read, in the order of \<open>K\<close>, and a key the
  object does not have is skipped. With no replacer (\<open>None\<close>) an object's own keys are used
  in insertion order.
\<close>

primrec SerializeJSONProperty ::
  "(rat \<Rightarrow> string) \<Rightarrow> string list option \<Rightarrow> json \<Rightarrow> string" where
  "SerializeJSONProperty numberToString PropertyList JNull = ''null''"
| "SerializeJSONProperty numberToString PropertyList (JBool b) =
     (if b then ''true'' else ''false'')"
| "SerializeJSONProperty numberToString PropertyList (JNum n) = numberToString n"
| "SerializeJSONProperty numberToString PropertyList (JStr s) = QuoteJSONString s"
| "SerializeJSONProperty numberToString PropertyList (JArr xs) =
     ''['' @ join '','' (map (SerializeJSONProperty numberToString PropertyList) xs) @ '']''"
| "SerializeJSONProperty numberToString PropertyList (JObj kvs) =
     (let members = map (map_prod id (SerializeJSONProperty numberToString PropertyList)) kvs;
          K = (case PropertyList of Some pl \<Rightarrow> pl | None \<Rightarrow> map fst kvs)
      in ''{'' @ join '',''
           (List.map_filter
              (\<lambda>P. case map_of members P of
                      None \<Rightarrow> None
                    | Some strP \<Rightarrow> Some (QuoteJSONString P @ '':'' @ strP))
              K) @ ''}'')"

text \<open>
  Building the property list from a replacer array keeps the first occurrence of each
  name.
\<close>

definition uniqueNames :: "string list \<Rightarrow> string list" where
  "uniqueNames ks = foldl (\<lambda>acc k. if k \<in> set acc then acc else acc @ [k]) [] ks"

definition JSON_stringify :: "(rat \<Rightarrow> string) \<Rightarrow> json \<Rightarrow> string list option \<Rightarrow> string" where
  "JSON_stringify numberToString v replacer =
     SerializeJSONProperty numberToString (map_option uniqueNames replacer) v"

text \<open>
  The routes and \<^verbatim>\<open>verifyRegistrationSignature\<close> build the signed message as
  \<^verbatim>\<open>const { signature, ...dataToSign } = body;\<close>
  \<^verbatim>\<open>const message = JSON.stringify(dataToSign, Object.keys(dataToSign).sort());\<close>
  \<^verbatim>\<open>Array.prototype.sort\<close> without a comparator orders strings by code unit, which is the
  lexicographic order of \<open>string\<close>.
\<close>

definition dataToSign :: "(string \<times> json) list \<Rightarrow> (string \<times> json) list" where
  "dataToSign body = filter (\<lambda>kv. fst kv \<noteq> ''signature'') body"

definition signingMessage :: "(rat \<Rightarrow> string) \<Rightarrow> (string \<times> json) list \<Rightarrow> string" where
  "signingMessage numberToString body =
     JSON_stringify numberToString (JObj (dataToSign body))
       (Some (sort (map fst (dataToSign body))))"

text \<open>
  Two payloads are structurally equal when they are the same value up to the insertion
  order of object fields, at every depth: arrays agree element by element, objects have
  the same (distinct) keys and structurally equal values under each key.
\<close>

fun structurallyEqual :: "json \<Rightarrow> json \<Rightarrow> bool" where
  "structurallyEqual (JArr xs) (JArr ys) = list_all2 structurallyEqual xs ys"
| "structurallyEqual (JObj a) (JObj b) =
     (distinct (map fst a) \<and> distinct (map fst b) \<and> set (map fst a) = set (map fst b) \<and>
      (\<forall>kv \<in> set a. \<forall>kw \<in> set b. fst kv = fst kw \<longrightarrow> structurallyEqual (snd kv) (snd kw)))"
| "structurallyEqual x y = (x = y)"

section \<open>Signature verification\<close>

text \<open>
  The libraries the service calls are parameters of the model: \<open>bs58_decode\<close> is
  \<^verbatim>\<open>bs58.decode\<close> (\<open>None\<close> when it throws on a character outside the alphabet),
  \<open>ed25519_verify message signature publicKey\<close> is the Ed25519 check inside
  \<^verbatim>\<open>nacl.sign.detached.verify\<close>, \<open>numberToString\<close> prints a number, \<open>isUrl\<close> is the URL
  test of the schema library.
\<close>

type_synonym byte = "8 word"

record libs =
  bs58_decode :: "string \<Rightarrow> byte list option"
  ed25519_verify :: "byte list \<Rightarrow> byte list \<Rightarrow> byte list \<Rightarrow> bool"
  numberToString :: "rat \<Rightarrow> string"
  isUrl :: "string \<Rightarrow> bool"

datatype error = Error string | PrismaClientError string

fun message :: "error \<Rightarrow> string" where
  "message (Error m) = m"
| "message (PrismaClientError m) = m"

text \<open>\<^verbatim>\<open>new PublicKey(s).toBytes()\<close>: decodes base-58 and insists on 32 bytes.\<close>

definition PublicKey_toBytes :: "libs \<Rightarrow> string \<Rightarrow> error + byte list" where
  "PublicKey_toBytes L s =
     (case bs58_decode L s of
        None \<Rightarrow> Inl (Error ''Non-base58 character'')
      | Some decoded \<Rightarrow>
          if length decoded \<noteq> 32 then Inl (Error ''Invalid public key input'')
          else Inr decoded)"

text \<open>\<^verbatim>\<open>new TextEncoder().encode(message)\<close> on a string of one-byte characters.\<close>

definition TextEncoder_encode :: "string \<Rightarrow> byte list" where
  "TextEncoder_encode s = map of_char s"

text \<open>\<^verbatim>\<open>nacl.sign.detached.verify\<close> throws on a signature or key of the wrong size.\<close>

definition nacl_sign_detached_verify ::
  "libs \<Rightarrow> byte list \<Rightarrow> byte list \<Rightarrow> byte list \<Rightarrow> error + bool" where
  "nacl_sign_detached_verify L msg sig pk =
     (if length sig \<noteq> 64 then Inl (Error ''bad signature size'')
      else if length pk \<noteq> 32 then Inl (Error ''bad public key size'')
      else Inr (ed25519_verify L msg sig pk))"

text \<open>The body of the \<^verbatim>\<open>try\<close> block of \<^verbatim>\<open>verifySolanaSignature\<close>.\<close>

definition verifySolanaSignature_try :: "libs \<Rightarrow> string \<Rightarrow> string \<Rightarrow> string \<Rightarrow> error + bool" where
  "verifySolanaSignature_try L msg signature publicKey =
     (case bs58_decode L signature of
        None \<Rightarrow> Inl (Error ''Non-base58 character'')
      | Some signatureBytes \<Rightarrow>
          (case PublicKey_toBytes L publicKey of
             Inl e \<Rightarrow> Inl e
           | Inr publicKeyBytes \<Rightarrow>
               nacl_sign_detached_verify L (TextEncoder_encode msg) signatureBytes publicKeyBytes))"

definition verifySolanaSignature :: "libs \<Rightarrow> string \<Rightarrow> string \<Rightarrow> string \<Rightarrow> bool" where
  "verifySolanaSignature L msg signature publicKey =
     (case verifySolanaSignature_try L msg signature publicKey of
        Inl e \<Rightarrow> False
      | Inr b \<Rightarrow> b)"

definition isValidSolanaPublicKey :: "libs \<Rightarrow> string \<Rightarrow> bool" where
  "isValidSolanaPublicKey L publicKey =
     (case PublicKey_toBytes L publicKey of Inl e \<Rightarrow> False | Inr bytes \<Rightarrow> True)"

section \<open>Request and response types\<close>

text \<open>
  The field names of the source's types recur from one type to the next (\<^verbatim>\<open>name\<close>,
  \<^verbatim>\<open>status\<close>, \<^verbatim>\<open>signature\<close>, ...), so every record field carries a prefix for its record:
  \<open>c_\<close> a row of the \<^verbatim>\<open>Casino\<close> table, \<open>h_\<close> a row of the \<^verbatim>\<open>Heartbeat\<close> table,
  \<open>d_\<close> the data of a create, \<open>set_\<close> the data of an update, \<open>r_\<close> a
  \<^verbatim>\<open>RegistrationRequest\<close>, \<open>m_\<close> its (or an update's) \<^verbatim>\<open>metadata\<close>, \<open>p_\<close> a
  \<^verbatim>\<open>HeartbeatPayload\<close>, \<open>u_\<close> a \<^verbatim>\<open>CasinoUpdateRequest\<close>, \<open>f_\<close> the
  \<^verbatim>\<open>CasinoFilters\<close>, \<open>o_\<close> and \<open>om_\<close> the \<^verbatim>\<open>CasinoMetadata\<close> response. An optional field is
  an \<open>option\<close>, \<open>None\<close> standing for \<^verbatim>\<open>undefined\<close> (or SQL \<^verbatim>\<open>NULL\<close> in a row). A
  \<^verbatim>\<open>DateTime\<close> is its number of milliseconds since the epoch.
\<close>

record SocialLinks =
  twitter :: "string option"
  discord :: "string option"
  telegram :: "string option"
  website :: "string option"

record Metadata =
  m_description :: "string option"
  m_games :: "string list option"
  m_logo :: "string option"
  m_banner :: "string option"
  m_socialLinks :: "SocialLinks option"
  m_maxBetAmount :: "rat option"
  m_minBetAmount :: "rat option"
  m_supportedTokens :: "string list option"

record RegistrationRequest =
  r_name :: string
  r_url :: string
  r_publicKey :: string
  r_signature :: string
  r_metadata :: Metadata

record Metrics =
  activePlayers :: "int option"
  totalBets24h :: "rat option"
  uptime :: "rat option"
  responseTime :: "rat option"

record HeartbeatPayload =
  p_casinoId :: string
  p_status :: string
  p_timestamp :: int
  p_metrics :: "Metrics option"
  p_signature :: string

record CasinoUpdateRequest =
  u_casinoId :: string
  u_name :: "string option"
  u_url :: "string option"
  u_status :: "string option"
  u_metadata :: "Metadata option"
  u_signature :: string

record CasinoFilters =
  f_status :: "string option"
  f_games :: "string list option"
  f_limit :: nat
  f_offset :: nat

record ResponseMetadata =
  om_description :: "string option"
  om_games :: "string list"
  om_logo :: "string option"
  om_banner :: "string option"
  om_socialLinks :: SocialLinks
  om_maxBetAmount :: "rat option"
  om_minBetAmount :: "rat option"
  om_supportedTokens :: "string list"

record CasinoMetadata =
  o_id :: string
  o_name :: string
  o_url :: string
  o_publicKey :: string
  o_status :: string
  o_metadata :: ResponseMetadata
  o_createdAt :: int
  o_updatedAt :: int
  o_lastHeartbeat :: "int option"
  o_version :: string

record HeartbeatResult =
  hr_success :: bool
  hr_timestamp :: int
  hr_nextHeartbeatIn :: "nat option"

record CasinoList =
  l_casinos :: "CasinoMetadata list"
  l_total :: nat
  l_limit :: nat
  l_offset :: nat

text \<open>
  The response envelope \<^verbatim>\<open>ApiResponse\<close>: \<open>Success data timestamp\<close> or
  \<open>Failure code message timestamp\<close>; a reply is the HTTP status with the envelope.
\<close>

datatype 'a ApiResponse = Success 'a int | Failure string string int

type_synonym 'a reply = "nat \<times> 'a ApiResponse"

section \<open>Schemas\<close>

definition CasinoStatusSchema :: "string list" where
  "CasinoStatusSchema = [''online'', ''offline'', ''maintenance'', ''suspended'']"

definition GameTypeSchema :: "string list" where
  "GameTypeSchema =
     [''slots'', ''roulette'', ''dice'', ''crash'', ''coinflip'', ''rps'', ''bombs'', ''cards'',
      ''coinFlip'', ''plinko'', ''cards_1'', ''slots_1'', ''cryptoLaunch'', ''cryptoLaunch_1'']"

definition optionalOk :: "('a \<Rightarrow> bool) \<Rightarrow> 'a option \<Rightarrow> bool" where
  "optionalOk P x = (case x of None \<Rightarrow> True | Some v \<Rightarrow> P v)"

definition socialLinksOk :: "libs \<Rightarrow> SocialLinks \<Rightarrow> bool" where
  "socialLinksOk L s =
     (optionalOk (isUrl L) (twitter s) \<and> optionalOk (isUrl L) (discord s) \<and>
      optionalOk (isUrl L) (telegram s) \<and> optionalOk (isUrl L) (website s))"

text \<open>
  \<^verbatim>\<open>RegistrationRequestSchema.parse\<close> on a body of the right shape: \<open>None\<close> when it throws
  a \<^verbatim>\<open>ZodError\<close>, otherwise the body with the two defaults
  (\<^verbatim>\<open>games: ...default([])\<close>, \<^verbatim>\<open>supportedTokens: ...default(['SOL'])\<close>) filled in.
\<close>

definition RegistrationRequestSchema_parse ::
  "libs \<Rightarrow> RegistrationRequest \<Rightarrow> RegistrationRequest option" where
  "RegistrationRequestSchema_parse L body =
     (let m = r_metadata body;
          games = (case m_games m of None \<Rightarrow> [] | Some g \<Rightarrow> g);
          supportedTokens = (case m_supportedTokens m of None \<Rightarrow> [''SOL''] | Some t \<Rightarrow> t)
      in if 1 \<le> length (r_name body) \<and> length (r_name body) \<le> 100 \<and>
            isUrl L (r_url body) \<and>
            32 \<le> length (r_publicKey body) \<and> length (r_publicKey body) \<le> 44 \<and>
            optionalOk (\<lambda>d. length d \<le> 500) (m_description m) \<and>
            (\<forall>g \<in> set games. g \<in> set GameTypeSchema) \<and>
            optionalOk (isUrl L) (m_logo m) \<and>
            optionalOk (isUrl L) (m_banner m) \<and>
            optionalOk (socialLinksOk L) (m_socialLinks m) \<and>
            optionalOk (\<lambda>x. 0 < x) (m_maxBetAmount m) \<and>
            optionalOk (\<lambda>x. 0 < x) (m_minBetAmount m)
         then Some (body\<lparr>r_metadata :=
                       m\<lparr>m_games := Some games, m_supportedTokens := Some supportedTokens\<rparr>\<rparr>)
         else None)"

section \<open>Request bodies as JSON objects\<close>

text \<open>
  The object a parsed body is, for the serialisation of the signed message: a key is
  present exactly when its field is defined.
\<close>

definition optField :: "string \<Rightarrow> ('a \<Rightarrow> json) \<Rightarrow> 'a option \<Rightarrow> (string \<times> json) list" where
  "optField k f x = (case x of None \<Rightarrow> [] | Some v \<Rightarrow> [(k, f v)])"

definition JStrings :: "string list \<Rightarrow> json" where
  "JStrings xs = JArr (map JStr xs)"

definition json_of_SocialLinks :: "SocialLinks \<Rightarrow> json" where
  "json_of_SocialLinks s =
     JObj (optField ''twitter'' JStr (twitter s) @ optField ''discord'' JStr (discord s) @
           optField ''telegram'' JStr (telegram s) @ optField ''website'' JStr (website s))"

definition json_of_Metadata :: "Metadata \<Rightarrow> json" where
  "json_of_Metadata m =
     JObj (optField ''description'' JStr (m_description m) @
           optField ''games'' JStrings (m_games m) @
           optField ''logo'' JStr (m_logo m) @
           optField ''banner'' JStr (m_banner m) @
           optField ''socialLinks'' json_of_SocialLinks (m_socialLinks m) @
           optField ''maxBetAmount'' JNum (m_maxBetAmount m) @
           optField ''minBetAmount'' JNum (m_minBetAmount m) @
           optField ''supportedTokens'' JStrings (m_supportedTokens m))"

definition body_of_RegistrationRequest :: "RegistrationRequest \<Rightarrow> (string \<times> json) list" where
  "body_of_RegistrationRequest r =
     [(''name'', JStr (r_name r)), (''url'', JStr (r_url r)),
      (''publicKey'', JStr (r_publicKey r)), (''signature'', JStr (r_signature r)),
      (''metadata'', json_of_Metadata (r_metadata r))]"

definition json_of_Metrics :: "Metrics \<Rightarrow> json" where
  "json_of_Metrics x =
     JObj (optField ''activePlayers'' (\<lambda>n. JNum (of_int n)) (activePlayers x) @
           optField ''totalBets24h'' JNum (totalBets24h x) @
           optField ''uptime'' JNum (uptime x) @
           optField ''responseTime'' JNum (responseTime x))"

definition body_of_HeartbeatPayload :: "HeartbeatPayload \<Rightarrow> (string \<times> json) list" where
  "body_of_HeartbeatPayload p =
     [(''casinoId'', JStr (p_casinoId p)), (''status'', JStr (p_status p)),
      (''timestamp'', JNum (of_int (p_timestamp p)))] @
     optField ''metrics'' json_of_Metrics (p_metrics p) @
     [(''signature'', JStr (p_signature p))]"

definition body_of_CasinoUpdateRequest :: "CasinoUpdateRequest \<Rightarrow> (string \<times> json) list" where
  "body_of_CasinoUpdateRequest u =
     [(''casinoId'', JStr (u_casinoId u))] @
     optField ''name'' JStr (u_name u) @
     optField ''url'' JStr (u_url u) @
     optField ''status'' JStr (u_status u) @
     optField ''metadata'' json_of_Metadata (u_metadata u) @
     [(''signature'', JStr (u_signature u))]"

section \<open>The registry store\<close>

text \<open>
  The two tables of the Prisma schema, each a list of rows in insertion order. The
  operations below are the Prisma client calls the service makes, with the schema's
  defaults and constraints: \<^verbatim>\<open>id\<close> is the primary key (\<^verbatim>\<open>@default(uuid())\<close>, the fresh
  identifier being an argument \<open>uuid\<close>), \<^verbatim>\<open>publicKey\<close> is \<^verbatim>\<open>@unique\<close>, \<^verbatim>\<open>createdAt\<close> is
  \<^verbatim>\<open>@default(now())\<close>, \<^verbatim>\<open>updatedAt\<close> is \<^verbatim>\<open>@updatedAt\<close>, \<^verbatim>\<open>lastHeartbeat\<close> is nullable.
  The server clock (\<^verbatim>\<open>Date.now()\<close>) is the argument \<open>now\<close>. Values are taken to fit
  their columns (a number of milliseconds within the range of \<^verbatim>\<open>Date\<close>, a whole number
  for an \<^verbatim>\<open>Int\<close> column): the client's check of values against column types is not
  part of the model.
\<close>

record Casino =
  c_id :: string
  c_publicKey :: string
  c_name :: string
  c_url :: string
  c_status :: string
  c_description :: "string option"
  c_games :: "string list"
  c_logo :: "string option"
  c_banner :: "string option"
  c_twitterUrl :: "string option"
  c_discordUrl :: "string option"
  c_telegramUrl :: "string option"
  c_websiteUrl :: "string option"
  c_maxBetAmount :: "rat option"
  c_minBetAmount :: "rat option"
  c_supportedTokens :: "string list"
  c_version :: string
  c_createdAt :: int
  c_updatedAt :: int
  c_lastHeartbeat :: "int option"

record Heartbeat =
  h_id :: string
  h_casinoId :: string
  h_status :: string
  h_activePlayers :: "int option"
  h_totalBets24h :: "rat option"
  h_uptime :: "rat option"
  h_responseTime :: "rat option"
  h_timestamp :: int
  h_signature :: string

record prisma =
  casino :: "Casino list"
  heartbeat :: "Heartbeat list"

record CasinoCreateInput =
  d_publicKey :: string
  d_name :: string
  d_url :: string
  d_status :: string
  d_description :: "string option"
  d_games :: "string list"
  d_logo :: "string option"
  d_banner :: "string option"
  d_twitterUrl :: "string option"
  d_discordUrl :: "string option"
  d_telegramUrl :: "string option"
  d_websiteUrl :: "string option"
  d_maxBetAmount :: "rat option"
  d_minBetAmount :: "rat option"
  d_supportedTokens :: "string list"
  d_version :: string

record CasinoUpdateInput =
  set_name :: "string option"
  set_url :: "string option"
  set_status :: "string option"
  set_description :: "string option"
  set_games :: "string list option"
  set_logo :: "string option"
  set_banner :: "string option"
  set_twitterUrl :: "string option"
  set_discordUrl :: "string option"
  set_telegramUrl :: "string option"
  set_websiteUrl :: "string option"
  set_maxBetAmount :: "rat option"
  set_minBetAmount :: "rat option"
  set_supportedTokens :: "string list option"
  set_lastHeartbeat :: "int option"

definition prisma_casino_findUnique_id :: "prisma \<Rightarrow> string \<Rightarrow> Casino option" where
  "prisma_casino_findUnique_id db i = find (\<lambda>c. c_id c = i) (casino db)"

definition prisma_casino_findUnique_publicKey :: "prisma \<Rightarrow> string \<Rightarrow> Casino option" where
  "prisma_casino_findUnique_publicKey db k = find (\<lambda>c. c_publicKey c = k) (casino db)"

text \<open>
  \<^verbatim>\<open>prisma.casino.create\<close>: the insert fails on a row with the same primary key or the
  same \<^verbatim>\<open>publicKey\<close> (unique-constraint error \<^verbatim>\<open>P2002\<close>).
\<close>

definition prisma_casino_create ::
  "int \<Rightarrow> string \<Rightarrow> prisma \<Rightarrow> CasinoCreateInput \<Rightarrow> (error + Casino) \<times> prisma" where
  "prisma_casino_create now uuid db d =
     (if \<exists>c \<in> set (casino db). c_id c = uuid \<or> c_publicKey c = d_publicKey d
      then (Inl (PrismaClientError ''P2002''), db)
      else
        (let row = \<lparr> c_id = uuid, c_publicKey = d_publicKey d, c_name = d_name d,
                     c_url = d_url d, c_status = d_status d,
                     c_description = d_description d, c_games = d_games d,
                     c_logo = d_logo d, c_banner = d_banner d,
                     c_twitterUrl = d_twitterUrl d, c_discordUrl = d_discordUrl d,
                     c_telegramUrl = d_telegramUrl d, c_websiteUrl = d_websiteUrl d,
                     c_maxBetAmount = d_maxBetAmount d, c_minBetAmount = d_minBetAmount d,
                     c_supportedTokens = d_supportedTokens d, c_version = d_version d,
                     c_createdAt = now, c_updatedAt = now, c_lastHeartbeat = None \<rparr>
         in (Inr row, db\<lparr>casino := casino db @ [row]\<rparr>)))"

text \<open>
  The effect of update data on a row: a field that is set takes the new value, a field
  left \<^verbatim>\<open>undefined\<close> keeps the old one; Prisma refreshes \<^verbatim>\<open>updatedAt\<close> on every row it
  updates.
\<close>

definition keep :: "'a option \<Rightarrow> 'a \<Rightarrow> 'a" where
  "keep new old = (case new of None \<Rightarrow> old | Some v \<Rightarrow> v)"

definition keepNullable :: "'a option \<Rightarrow> 'a option \<Rightarrow> 'a option" where
  "keepNullable new old = (case new of None \<Rightarrow> old | Some v \<Rightarrow> Some v)"

definition applyUpdate :: "int \<Rightarrow> CasinoUpdateInput \<Rightarrow> Casino \<Rightarrow> Casino" where
  "applyUpdate now d c =
     c\<lparr> c_name := keep (set_name d) (c_name c),
        c_url := keep (set_url d) (c_url c),
        c_status := keep (set_status d) (c_status c),
        c_description := keepNullable (set_description d) (c_description c),
        c_games := keep (set_games d) (c_games c),
        c_logo := keepNullable (set_logo d) (c_logo c),
        c_banner := keepNullable (set_banner d) (c_banner c),
        c_twitterUrl := keepNullable (set_twitterUrl d) (c_twitterUrl c),
        c_discordUrl := keepNullable (set_discordUrl d) (c_discordUrl c),
        c_telegramUrl := keepNullable (set_telegramUrl d) (c_telegramUrl c),
        c_websiteUrl := keepNullable (set_websiteUrl d) (c_websiteUrl c),
        c_maxBetAmount := keepNullable (set_maxBetAmount d) (c_maxBetAmount c),
        c_minBetAmount := keepNullable (set_minBetAmount d) (c_minBetAmount c),
        c_supportedTokens := keep (set_supportedTokens d) (c_supportedTokens c),
        c_lastHeartbeat := keepNullable (set_lastHeartbeat d) (c_lastHeartbeat c),
        c_updatedAt := now \<rparr>"

definition noChange :: CasinoUpdateInput where
  "noChange =
     \<lparr> set_name = None, set_url = None, set_status = None, set_description = None,
       set_games = None, set_logo = None, set_banner = None, set_twitterUrl = None,
       set_discordUrl = None, set_telegramUrl = None, set_websiteUrl = None,
       set_maxBetAmount = None, set_minBetAmount = None, set_supportedTokens = None,
       set_lastHeartbeat = None \<rparr>"

text \<open>
  \<^verbatim>\<open>prisma.casino.update({ where: { id }, data })\<close>: error \<^verbatim>\<open>P2025\<close> when no row has
  the id.
\<close>

definition prisma_casino_update ::
  "int \<Rightarrow> prisma \<Rightarrow> string \<Rightarrow> CasinoUpdateInput \<Rightarrow> (error + Casino) \<times> prisma" where
  "prisma_casino_update now db i d =
     (case prisma_casino_findUnique_id db i of
        None \<Rightarrow> (Inl (PrismaClientError ''P2025''), db)
      | Some c \<Rightarrow>
          (Inr (applyUpdate now d c),
           db\<lparr>casino := map (\<lambda>r. if c_id r = i then applyUpdate now d r else r) (casino db)\<rparr>))"

text \<open>\<^verbatim>\<open>prisma.casino.updateMany({ where, data })\<close>, returning \<^verbatim>\<open>count\<close>.\<close>

definition prisma_casino_updateMany ::
  "int \<Rightarrow> prisma \<Rightarrow> (Casino \<Rightarrow> bool) \<Rightarrow> CasinoUpdateInput \<Rightarrow> nat \<times> prisma" where
  "prisma_casino_updateMany now db wh d =
     (length (filter wh (casino db)),
      db\<lparr>casino := map (\<lambda>r. if wh r then applyUpdate now d r else r) (casino db)\<rparr>)"

definition prisma_casino_count :: "prisma \<Rightarrow> (Casino \<Rightarrow> bool) \<Rightarrow> nat" where
  "prisma_casino_count db wh = length (filter wh (casino db))"

text \<open>
  \<^verbatim>\<open>orderBy: { lastHeartbeat: 'desc' }\<close> becomes \<^verbatim>\<open>ORDER BY "lastHeartbeat" DESC\<close>.
  PostgreSQL treats \<^verbatim>\<open>NULL\<close> as larger than every value, so a descending order lists the
  \<^verbatim>\<open>NULL\<close> rows first (\<^verbatim>\<open>NULLS FIRST\<close> is its default for \<^verbatim>\<open>DESC\<close>); the query names no
  \<^verbatim>\<open>nulls\<close> option. \<open>descNullsFirst a b\<close> says that a row with key \<open>a\<close> may stand before a
  row with key \<open>b\<close>. The database leaves the order of rows with equal keys open; the model
  keeps them in table order, and no theorem below depends on that choice.
\<close>

fun descNullsFirst :: "int option \<Rightarrow> int option \<Rightarrow> bool" where
  "descNullsFirst None b = True"
| "descNullsFirst (Some x) None = False"
| "descNullsFirst (Some x) (Some y) = (y \<le> x)"

fun insertRow :: "Casino \<Rightarrow> Casino list \<Rightarrow> Casino list" where
  "insertRow r [] = [r]"
| "insertRow r (x # xs) =
     (if descNullsFirst (c_lastHeartbeat r) (c_lastHeartbeat x) then r # x # xs
      else x # insertRow r xs)"

definition orderBy_lastHeartbeat_desc :: "Casino list \<Rightarrow> Casino list" where
  "orderBy_lastHeartbeat_desc rows = foldr insertRow rows []"

definition prisma_casino_findMany :: "prisma \<Rightarrow> (Casino \<Rightarrow> bool) \<Rightarrow> nat \<Rightarrow> nat \<Rightarrow> Casino list" where
  "prisma_casino_findMany db wh skip tk =
     take tk (drop skip (orderBy_lastHeartbeat_desc (filter wh (casino db))))"

text \<open>
  \<^verbatim>\<open>prisma.heartbeat.create\<close>: the primary key is fresh and the casino row exists
  (foreign key), or the insert fails.
\<close>

definition prisma_heartbeat_create :: "prisma \<Rightarrow> Heartbeat \<Rightarrow> (error + Heartbeat) \<times> prisma" where
  "prisma_heartbeat_create db row =
     (if \<exists>h \<in> set (heartbeat db). h_id h = h_id row
      then (Inl (PrismaClientError ''P2002''), db)
      else if \<forall>c \<in> set (casino db). c_id c \<noteq> h_casinoId row
      then (Inl (PrismaClientError ''P2003''), db)
      else (Inr row, db\<lparr>heartbeat := heartbeat db @ [row]\<rparr>))"

section \<open>The casino service\<close>

text \<open>A JavaScript \<^verbatim>\<open>x || undefined\<close> on a nullable string or number.\<close>

definition orUndefined_string :: "string option \<Rightarrow> string option" where
  "orUndefined_string x = (case x of None \<Rightarrow> None | Some s \<Rightarrow> if s = [] then None else Some s)"

definition orUndefined_number :: "rat option \<Rightarrow> rat option" where
  "orUndefined_number x = (case x of None \<Rightarrow> None | Some n \<Rightarrow> if n = 0 then None else Some n)"

definition formatCasinoResponse :: "Casino \<Rightarrow> CasinoMetadata" where
  "formatCasinoResponse c =
     \<lparr> o_id = c_id c, o_name = c_name c, o_url = c_url c, o_publicKey = c_publicKey c,
       o_status = c_status c,
       o_metadata =
         \<lparr> om_description = orUndefined_string (c_description c),
           om_games = c_games c,
           om_logo = orUndefined_string (c_logo c),
           om_banner = orUndefined_string (c_banner c),
           om_socialLinks =
             \<lparr> twitter = orUndefined_string (c_twitterUrl c),
               discord = orUndefined_string (c_discordUrl c),
               telegram = orUndefined_string (c_telegramUrl c),
               website = orUndefined_string (c_websiteUrl c) \<rparr>,
           om_maxBetAmount = orUndefined_number (c_maxBetAmount c),
           om_minBetAmount = orUndefined_number (c_minBetAmount c),
           om_supportedTokens = c_supportedTokens c \<rparr>,
       o_createdAt = c_createdAt c, o_updatedAt = c_updatedAt c,
       o_lastHeartbeat = c_lastHeartbeat c, o_version = c_version c \<rparr>"

text \<open>
  \<^verbatim>\<open>registerCasino\<close>. An array is truthy in JavaScript, the empty one too, so
  \<^verbatim>\<open>games || []\<close> falls back only when \<^verbatim>\<open>games\<close> is undefined.
\<close>

definition registerCasino ::
  "int \<Rightarrow> string \<Rightarrow> prisma \<Rightarrow> RegistrationRequest \<Rightarrow> (error + CasinoMetadata) \<times> prisma" where
  "registerCasino now uuid db input =
     (case prisma_casino_findUnique_publicKey db (r_publicKey input) of
        Some existing \<Rightarrow> (Inl (Error ''CASINO_ALREADY_EXISTS''), db)
      | None \<Rightarrow>
          (let m = r_metadata input;
               created = prisma_casino_create now uuid db
                 \<lparr> d_publicKey = r_publicKey input,
                   d_name = r_name input,
                   d_url = r_url input,
                   d_status = ''online'',
                   d_description = m_description m,
                   d_games = (case m_games m of Some g \<Rightarrow> g | None \<Rightarrow> []),
                   d_logo = m_logo m,
                   d_banner = m_banner m,
                   d_twitterUrl = Option.bind (m_socialLinks m) twitter,
                   d_discordUrl = Option.bind (m_socialLinks m) discord,
                   d_telegramUrl = Option.bind (m_socialLinks m) telegram,
                   d_websiteUrl = Option.bind (m_socialLinks m) website,
                   d_maxBetAmount = m_maxBetAmount m,
                   d_minBetAmount = m_minBetAmount m,
                   d_supportedTokens = (case m_supportedTokens m of Some t \<Rightarrow> t | None \<Rightarrow> [''SOL'']),
                   d_version = ''1.0.0'' \<rparr>
           in case created of
                (Inl e, db') \<Rightarrow> (Inl e, db')
              | (Inr row, db') \<Rightarrow> (Inr (formatCasinoResponse row), db')))"

text \<open>
  \<^verbatim>\<open>updateHeartbeat\<close>. Both the heartbeat row and the casino's \<^verbatim>\<open>lastHeartbeat\<close> are
  written from \<^verbatim>\<open>new Date(input.timestamp)\<close>, the timestamp of the payload; the clock is
  read only for the acknowledgement (and by Prisma for \<^verbatim>\<open>updatedAt\<close>).
\<close>

definition updateHeartbeat ::
  "int \<Rightarrow> string \<Rightarrow> prisma \<Rightarrow> HeartbeatPayload \<Rightarrow> (error + HeartbeatResult) \<times> prisma" where
  "updateHeartbeat now uuid db input =
     (case prisma_casino_findUnique_id db (p_casinoId input) of
        None \<Rightarrow> (Inl (Error ''CASINO_NOT_FOUND''), db)
      | Some c \<Rightarrow>
          (case prisma_heartbeat_create db
                  \<lparr> h_id = uuid,
                    h_casinoId = c_id c,
                    h_status = p_status input,
                    h_activePlayers = Option.bind (p_metrics input) activePlayers,
                    h_totalBets24h = Option.bind (p_metrics input) totalBets24h,
                    h_uptime = Option.bind (p_metrics input) uptime,
                    h_responseTime = Option.bind (p_metrics input) responseTime,
                    h_timestamp = p_timestamp input,
                    h_signature = p_signature input \<rparr> of
             (Inl e, db1) \<Rightarrow> (Inl e, db1)
           | (Inr hb, db1) \<Rightarrow>
               (case prisma_casino_update now db1 (c_id c)
                       (noChange\<lparr> set_status := Some (p_status input),
                                 set_lastHeartbeat := Some (p_timestamp input) \<rparr>) of
                  (Inl e, db2) \<Rightarrow> (Inl e, db2)
                | (Inr updated, db2) \<Rightarrow>
                    (Inr \<lparr> hr_success = True, hr_timestamp = now,
                           hr_nextHeartbeatIn = Some 60 \<rparr>, db2))))"

text \<open>
  \<^verbatim>\<open>updateCasino\<close>. Each \<^verbatim>\<open>if (input.x !== undefined) updateData.x = input.x\<close> leaves
  \<^verbatim>\<open>updateData.x\<close> defined exactly when \<^verbatim>\<open>input.x\<close> is, so the update data is read off
  the input field by field; the fields under \<^verbatim>\<open>metadata\<close> and \<^verbatim>\<open>metadata.socialLinks\<close>
  are read only when those objects are present.
\<close>

definition updateData_of :: "CasinoUpdateRequest \<Rightarrow> CasinoUpdateInput" where
  "updateData_of input =
     (let md = u_metadata input; links = Option.bind md m_socialLinks in
      \<lparr> set_name = u_name input,
        set_url = u_url input,
        set_status = u_status input,
        set_description = Option.bind md m_description,
        set_games = Option.bind md m_games,
        set_logo = Option.bind md m_logo,
        set_banner = Option.bind md m_banner,
        set_twitterUrl = Option.bind links twitter,
        set_discordUrl = Option.bind links discord,
        set_telegramUrl = Option.bind links telegram,
        set_websiteUrl = Option.bind links website,
        set_maxBetAmount = Option.bind md m_maxBetAmount,
        set_minBetAmount = Option.bind md m_minBetAmount,
        set_supportedTokens = Option.bind md m_supportedTokens,
        set_lastHeartbeat = None \<rparr>)"

definition updateCasino ::
  "int \<Rightarrow> prisma \<Rightarrow> CasinoUpdateRequest \<Rightarrow> (error + CasinoMetadata) \<times> prisma" where
  "updateCasino now db input =
     (case prisma_casino_findUnique_id db (u_casinoId input) of
        None \<Rightarrow> (Inl (Error ''CASINO_NOT_FOUND''), db)
      | Some c \<Rightarrow>
          (case prisma_casino_update now db (c_id c) (updateData_of input) of
             (Inl e, db') \<Rightarrow> (Inl e, db')
           | (Inr updated, db') \<Rightarrow> (Inr (formatCasinoResponse updated), db')))"

definition getCasinoById :: "prisma \<Rightarrow> string \<Rightarrow> CasinoMetadata option" where
  "getCasinoById db i = map_option formatCasinoResponse (prisma_casino_findUnique_id db i)"

definition getCasinoByPublicKey :: "prisma \<Rightarrow> string \<Rightarrow> CasinoMetadata option" where
  "getCasinoByPublicKey db k = map_option formatCasinoResponse (prisma_casino_findUnique_publicKey db k)"

text \<open>
  The \<^verbatim>\<open>where\<close> clause of \<^verbatim>\<open>getCasinos\<close>: the status when the filter has one, and
  \<^verbatim>\<open>games: { hasSome: filters.games }\<close> when the filter has a non-empty list.
\<close>

definition filtersWhere :: "CasinoFilters \<Rightarrow> Casino \<Rightarrow> bool" where
  "filtersWhere filters c =
     ((case f_status filters of None \<Rightarrow> True | Some s \<Rightarrow> c_status c = s) \<and>
      (case f_games filters of
         None \<Rightarrow> True
       | Some gs \<Rightarrow> if 0 < length gs then \<exists>g \<in> set gs. g \<in> set (c_games c) else True))"

definition getCasinos :: "prisma \<Rightarrow> CasinoFilters \<Rightarrow> CasinoList" where
  "getCasinos db filters =
     (let wh = filtersWhere filters;
          casinos = prisma_casino_findMany db wh (f_offset filters) (f_limit filters);
          total = prisma_casino_count db wh
      in \<lparr> l_casinos = map formatCasinoResponse casinos, l_total = total,
           l_limit = f_limit filters, l_offset = f_offset filters \<rparr>)"

text \<open>
  The \<^verbatim>\<open>where\<close> clause of the sweep: \<^verbatim>\<open>lastHeartbeat: { lt: cutoff }\<close>, which no row
  with a \<^verbatim>\<open>NULL\<close> \<^verbatim>\<open>lastHeartbeat\<close> satisfies, and \<^verbatim>\<open>status: { not: 'offline' }\<close>.
\<close>

definition inactiveWhere :: "int \<Rightarrow> Casino \<Rightarrow> bool" where
  "inactiveWhere cutoff c =
     ((case c_lastHeartbeat c of None \<Rightarrow> False | Some t \<Rightarrow> t < cutoff) \<and>
      c_status c \<noteq> ''offline'')"

definition markInactiveCasinos :: "int \<Rightarrow> int \<Rightarrow> prisma \<Rightarrow> nat \<times> prisma" where
  "markInactiveCasinos now timeoutMinutes db =
     (let cutoff = now - timeoutMinutes * 60 * 1000
      in prisma_casino_updateMany now db (inactiveWhere cutoff) (noChange\<lparr>set_status := Some ''offline''\<rparr>))"

section \<open>The routes\<close>

text \<open>
  A handler returns its reply, the store it leaves, and the calls of
  \<^verbatim>\<open>verifySolanaSignature\<close> it made, each as (message, signature, public key).
\<close>

type_synonym verification = "string \<times> string \<times> string"

text \<open>
  \<^verbatim>\<open>errorHandler\<close> for an error thrown by the service or the store, which carries no
  \<^verbatim>\<open>statusCode\<close>.
\<close>

definition errorHandler :: "int \<Rightarrow> error \<Rightarrow> 'a reply" where
  "errorHandler now e =
     (let msg = message e in
      if msg = ''CASINO_NOT_FOUND'' then (404, Failure ''CASINO_NOT_FOUND'' msg now)
      else if msg = ''CASINO_ALREADY_EXISTS'' then (409, Failure ''CASINO_ALREADY_EXISTS'' msg now)
      else if msg = ''INVALID_SIGNATURE'' then (401, Failure ''INVALID_SIGNATURE'' msg now)
      else if msg = ''UNAUTHORIZED'' then (401, Failure ''UNAUTHORIZED'' msg now)
      else (500, Failure ''INTERNAL_ERROR'' ''Internal server error'' now))"

text \<open>
  The pre-handler \<^verbatim>\<open>verifyRegistrationSignature\<close>: \<open>Some reply\<close> when it answers the
  request itself, \<open>None\<close> when it lets the request through.
\<close>

definition verifyRegistrationSignature ::
  "libs \<Rightarrow> int \<Rightarrow> RegistrationRequest \<Rightarrow> 'a reply option \<times> verification list" where
  "verifyRegistrationSignature L now body =
     (if r_signature body = [] then
        (Some (400, Failure ''INVALID_REQUEST'' ''Missing signature'' now), [])
      else if r_publicKey body = [] then
        (Some (400, Failure ''INVALID_REQUEST'' ''Missing publicKey'' now), [])
      else if \<not> isValidSolanaPublicKey L (r_publicKey body) then
        (Some (400, Failure ''INVALID_REQUEST'' ''Invalid Solana public key format'' now), [])
      else
        (let msg = signingMessage (numberToString L) (body_of_RegistrationRequest body);
             isValid = verifySolanaSignature L msg (r_signature body) (r_publicKey body);
             calls = [(msg, r_signature body, r_publicKey body)]
         in if \<not> isValid then
              (Some (401, Failure ''INVALID_SIGNATURE'' ''Signature verification failed'' now), calls)
            else (None, calls)))"

text \<open>\<^verbatim>\<open>POST /api/casinos/register\<close>: schema, signature pre-handler, handler.\<close>

definition register_route ::
  "libs \<Rightarrow> int \<Rightarrow> string \<Rightarrow> prisma \<Rightarrow> RegistrationRequest \<Rightarrow>
   CasinoMetadata reply \<times> prisma \<times> verification list" where
  "register_route L now uuid db raw =
     (case RegistrationRequestSchema_parse L raw of
        None \<Rightarrow> ((400, Failure ''VALIDATION_ERROR'' ''Invalid request body'' now), db, [])
      | Some body \<Rightarrow>
          (case verifyRegistrationSignature L now body of
             (Some reply, calls) \<Rightarrow> (reply, db, calls)
           | (None, calls) \<Rightarrow>
               (case registerCasino now uuid db body of
                  (Inr created, db') \<Rightarrow> ((201, Success created now), db', calls)
                | (Inl e, db') \<Rightarrow>
                    if message e = ''CASINO_ALREADY_EXISTS'' then
                      ((409, Failure ''CASINO_ALREADY_EXISTS''
                               ''Casino with this public key is already registered'' now),
                       db', calls)
                    else (errorHandler now e, db', calls))))"

text \<open>
  \<^verbatim>\<open>POST /api/casinos/heartbeat\<close>, the handler, on a body that has passed
  \<^verbatim>\<open>HeartbeatPayloadSchema\<close>.
\<close>

definition heartbeat_route ::
  "libs \<Rightarrow> int \<Rightarrow> string \<Rightarrow> prisma \<Rightarrow> HeartbeatPayload \<Rightarrow>
   HeartbeatResult reply \<times> prisma \<times> verification list" where
  "heartbeat_route L now uuid db body =
     (case getCasinoById db (p_casinoId body) of
        None \<Rightarrow> ((404, Failure ''CASINO_NOT_FOUND'' ''Casino not found'' now), db, [])
      | Some found \<Rightarrow>
          (let msg = signingMessage (numberToString L) (body_of_HeartbeatPayload body);
               isValid = verifySolanaSignature L msg (p_signature body) (o_publicKey found);
               calls = [(msg, p_signature body, o_publicKey found)]
           in if \<not> isValid then
                ((401, Failure ''INVALID_SIGNATURE'' ''Signature verification failed'' now),
                 db, calls)
              else
                (case updateHeartbeat now uuid db body of
                   (Inr result, db') \<Rightarrow> ((200, Success result now), db', calls)
                 | (Inl e, db') \<Rightarrow>
                     if message e = ''CASINO_NOT_FOUND'' then
                       ((404, Failure ''CASINO_NOT_FOUND'' ''Casino not found'' now), db', calls)
                     else (errorHandler now e, db', calls))))"

text \<open>
  \<^verbatim>\<open>PATCH /api/casinos\<close>, the handler, on a body that has passed
  \<^verbatim>\<open>CasinoUpdateRequestSchema\<close>.
\<close>

definition update_route ::
  "libs \<Rightarrow> int \<Rightarrow> prisma \<Rightarrow> CasinoUpdateRequest \<Rightarrow>
   CasinoMetadata reply \<times> prisma \<times> verification list" where
  "update_route L now db body =
     (case getCasinoById db (u_casinoId body) of
        None \<Rightarrow> ((404, Failure ''CASINO_NOT_FOUND'' ''Casino not found'' now), db, [])
      | Some found \<Rightarrow>
          (let msg = signingMessage (numberToString L) (body_of_CasinoUpdateRequest body);
               isValid = verifySolanaSignature L msg (u_signature body) (o_publicKey found);
               calls = [(msg, u_signature body, o_publicKey found)]
           in if \<not> isValid then
                ((401, Failure ''INVALID_SIGNATURE'' ''Signature verification failed'' now),
                 db, calls)
              else
                (case updateCasino now db body of
                   (Inr updated, db') \<Rightarrow> ((200, Success updated now), db', calls)
                 | (Inl e, db') \<Rightarrow>
                     if message e = ''CASINO_NOT_FOUND'' then
                       ((404, Failure ''CASINO_NOT_FOUND'' ''Casino not found'' now), db', calls)
                     else (errorHandler now e, db', calls))))"

section \<open>The specification's wording, for comparison\<close>



text \<open>
  The specification asks for the page of a list query to be in the order "descending
  \<^verbatim>\<open>lastSeenAt\<close>, with unseen participants sorted last": \<open>descNullsLast a b\<close> says that a
  participant with key \<open>a\<close> may stand before one with key \<open>b\<close> in that order.
\<close>

fun descNullsLast :: "int option \<Rightarrow> int option \<Rightarrow> bool" where
  "descNullsLast a None = True"
| "descNullsLast None (Some y) = False"
| "descNullsLast (Some x) (Some y) = (y \<le> x)"

text \<open>
  The specification's condition of the sweep: the participant has been seen, the time
  since it was last seen exceeds the timeout (given in minutes, the clock being in
  milliseconds), and its status is not already \<^verbatim>\<open>offline\<close>.
\<close>

definition seenBeforeCutoffAndNotOffline :: "int \<Rightarrow> int \<Rightarrow> Casino \<Rightarrow> bool" where
  "seenBeforeCutoffAndNotOffline now timeoutMinutes c =
     ((case c_lastHeartbeat c of
         None \<Rightarrow> False
       | Some seen \<Rightarrow> timeoutMinutes * 60000 < now - seen) \<and>
      c_status c \<noteq> ''offline'')"

section \<open>Sample libraries and data for the worked instances\<close>

text \<open>
  A stand-in for the libraries, used only to run the model on concrete requests: the
  decoder rejects a string with a \<open>0\<close> (which is not in the base-58 alphabet) and
  otherwise yields one byte per character; a signature counts as valid for a key when
  both start with the same byte.
\<close>

definition sampleLibs :: libs where
  "sampleLibs =
     \<lparr> bs58_decode = (\<lambda>s. if CHR ''0'' \<in> set s then None else Some (map of_char s)),
       ed25519_verify = (\<lambda>m s k. take 1 s = take 1 k),
       numberToString = (\<lambda>r. ''7''),
       isUrl = (\<lambda>s. True) \<rparr>"

definition sampleKey :: string where
  "sampleKey = replicate 32 (CHR ''a'')"

definition sampleSignature :: string where
  "sampleSignature = replicate 64 (CHR ''a'')"

definition sampleCasino :: Casino where
  "sampleCasino =
     \<lparr> c_id = ''c1'', c_publicKey = sampleKey, c_name = ''Ace'', c_url = ''https://ace.example'',
       c_status = ''online'', c_description = Some ''first'', c_games = [''slots'', ''dice''],
       c_logo = None, c_banner = None, c_twitterUrl = Some ''https://t.example/ace'',
       c_discordUrl = None, c_telegramUrl = None, c_websiteUrl = None,
       c_maxBetAmount = Some 100, c_minBetAmount = Some 1, c_supportedTokens = [''SOL''],
       c_version = ''1.0.0'', c_createdAt = 10, c_updatedAt = 10, c_lastHeartbeat = Some 100 \<rparr>"

definition unseenCasino :: Casino where
  "unseenCasino =
     sampleCasino\<lparr> c_id := ''c2'', c_publicKey := replicate 32 (CHR ''b''), c_name := ''Bet'',
                   c_lastHeartbeat := None \<rparr>"

definition freshCasino :: Casino where
  "freshCasino =
     sampleCasino\<lparr> c_id := ''c3'', c_publicKey := replicate 32 (CHR ''c''), c_name := ''Cat'',
                   c_lastHeartbeat := Some 900000 \<rparr>"

definition offlineCasino :: Casino where
  "offlineCasino =
     sampleCasino\<lparr> c_id := ''c4'', c_publicKey := replicate 32 (CHR ''d''), c_name := ''Dot'',
                   c_status := ''offline'', c_lastHeartbeat := Some 50 \<rparr>"

definition emptyDb :: prisma where
  "emptyDb = \<lparr> casino = [], heartbeat = [] \<rparr>"

definition sampleDb :: prisma where
  "sampleDb = \<lparr> casino = [sampleCasino], heartbeat = [] \<rparr>"

definition twoCasinos :: prisma where
  "twoCasinos = \<lparr> casino = [sampleCasino, unseenCasino], heartbeat = [] \<rparr>"

definition fourCasinos :: prisma where
  "fourCasinos =
     \<lparr> casino = [sampleCasino, freshCasino, offlineCasino, unseenCasino], heartbeat = [] \<rparr>"

definition sampleRegistration :: RegistrationRequest where
  "sampleRegistration =
     \<lparr> r_name = ''Ace'', r_url = ''https://ace.example'', r_publicKey = sampleKey,
       r_signature = sampleSignature,
       r_metadata =
         \<lparr> m_description = Some ''first'', m_games = None, m_logo = None, m_banner = None,
           m_socialLinks = None, m_maxBetAmount = None, m_minBetAmount = None,
           m_supportedTokens = None \<rparr> \<rparr>"







definition sampleHeartbeat :: HeartbeatPayload where
  "sampleHeartbeat =
     \<lparr> p_casinoId = ''c1'', p_status = ''maintenance'', p_timestamp = 1000,
       p_metrics = None, p_signature = sampleSignature \<rparr>"

definition sampleUpdate :: CasinoUpdateRequest where
  "sampleUpdate =
     \<lparr> u_casinoId = ''c1'', u_name = None, u_url = None, u_status = None,
       u_metadata =
         Some \<lparr> m_description = Some ''second'', m_games = None, m_logo = None,
                m_banner = None, m_socialLinks = None, m_maxBetAmount = None,
                m_minBetAmount = None, m_supportedTokens = None \<rparr>,
       u_signature = sampleSignature \<rparr>"

definition noFilters :: CasinoFilters where
  "noFilters = \<lparr> f_status = None, f_games = None, f_limit = 20, f_offset = 0 \<rparr>"

section \<open>The signed message: independence of field order\<close>

text \<open>
  What does hold of the message the code signs: it does not depend on the order in which
  the fields of the body were inserted.
\<close>

lemma map_of_members:
  "map_of (map (map_prod id f) kvs) k = map_option f (map_of kvs k)"
  by (induction kvs) auto

lemma map_of_distinct_iff:
  "distinct (map fst kvs) \<Longrightarrow> map_of kvs k = Some v \<longleftrightarrow> (k, v) \<in> set kvs"
  by (induction kvs) (auto simp: rev_image_eqI)

lemma map_of_None_iff: "map_of kvs k = None \<longleftrightarrow> k \<notin> set (map fst kvs)"
  by (simp add: map_of_eq_None_iff)

lemma list_all2_serialize:
  assumes "list_all2 R xs ys"
    and "\<And>x y. x \<in> set xs \<Longrightarrow> y \<in> set ys \<Longrightarrow> R x y \<Longrightarrow> f x = f y"
  shows "map f xs = map f ys"
  using assms by (induction xs ys rule: list_all2_induct) auto

lemma serialize_structurallyEqual:
  "structurallyEqual x y \<Longrightarrow>
   SerializeJSONProperty ns (Some pl) x = SerializeJSONProperty ns (Some pl) y"
proof (induction x y rule: structurallyEqual.induct)
  case (1 xs ys)
  have "map (SerializeJSONProperty ns (Some pl)) xs = map (SerializeJSONProperty ns (Some pl)) ys"
    using "1.prems" "1.IH" by (intro list_all2_serialize[where R = structurallyEqual]) auto
  then show ?case by simp
next
  case (2 a b)
  let ?f = "SerializeJSONProperty ns (Some pl)"
  from "2.prems" have da: "distinct (map fst a)" and db: "distinct (map fst b)"
    and keys: "set (map fst a) = set (map fst b)"
    and vals: "\<And>kv kw. kv \<in> set a \<Longrightarrow> kw \<in> set b \<Longrightarrow> fst kv = fst kw \<Longrightarrow>
                 structurallyEqual (snd kv) (snd kw)"
    by auto
  have "map_option ?f (map_of a P) = map_option ?f (map_of b P)" for P
  proof (cases "map_of a P")
    case None
    then have "P \<notin> set (map fst b)" using keys by (simp add: map_of_None_iff)
    then have "map_of b P = None" by (simp add: map_of_None_iff)
    with None show ?thesis by simp
  next
    case (Some v)
    then have inA: "(P, v) \<in> set a" using da by (simp add: map_of_distinct_iff)
    then have "P \<in> set (map fst b)" using keys by force
    then obtain w where w: "map_of b P = Some w"
      by (cases "map_of b P") (auto simp: map_of_None_iff)
    then have inB: "(P, w) \<in> set b" using db by (simp add: map_of_distinct_iff)
    have "structurallyEqual v w" using vals[OF inA inB] by simp
    then have "?f v = ?f w" using "2.IH"[OF inA inB] by simp
    with Some w show ?thesis by simp
  qed
  then have "map_of (map (map_prod id ?f) a) = map_of (map (map_prod id ?f) b)"
    by (intro ext) (simp add: map_of_members)
  then show ?case by simp
qed simp_all

lemma structurallyEqual_dataToSign:
  assumes "structurallyEqual (JObj a) (JObj b)"
  shows "structurallyEqual (JObj (dataToSign a)) (JObj (dataToSign b))"
proof -
  have keys: "map fst (dataToSign kvs) = filter (\<lambda>k. k \<noteq> ''signature'') (map fst kvs)"
    for kvs :: "(string \<times> json) list"
    by (simp add: dataToSign_def filter_map comp_def)
  have sub: "set (dataToSign kvs) \<subseteq> set kvs" for kvs :: "(string \<times> json) list"
    by (simp add: dataToSign_def)
  from assms have "set (map fst a) = set (map fst b)" by simp
  then have "set (map fst (dataToSign a)) = set (map fst (dataToSign b))"
    unfolding keys by simp
  moreover from assms have "distinct (map fst (dataToSign a))" "distinct (map fst (dataToSign b))"
    unfolding keys by simp_all
  moreover have "\<forall>kv \<in> set (dataToSign a). \<forall>kw \<in> set (dataToSign b).
          fst kv = fst kw \<longrightarrow> structurallyEqual (snd kv) (snd kw)"
  proof (intro ballI impI)
    fix kv kw
    assume "kv \<in> set (dataToSign a)" "kw \<in> set (dataToSign b)" "fst kv = fst kw"
    then have "kv \<in> set a" "kw \<in> set b" "fst kv = fst kw"
      using sub[of a] sub[of b] by auto
    with assms show "structurallyEqual (snd kv) (snd kw)" by simp
  qed
  ultimately show ?thesis by simp
qed

lemma sorted_keys_dataToSign:
  assumes "structurallyEqual (JObj a) (JObj b)"
  shows "sort (map fst (dataToSign a)) = sort (map fst (dataToSign b))"
proof -
  have se: "structurallyEqual (JObj (dataToSign a)) (JObj (dataToSign b))"
    using assms by (rule structurallyEqual_dataToSign)
  then have "set (map fst (dataToSign a)) = set (map fst (dataToSign b))"
    and "distinct (map fst (dataToSign a))" and "distinct (map fst (dataToSign b))"
    by simp_all
  then show ?thesis
    by (intro sorted_distinct_set_unique) simp_all
qed

lemma signingMessage_structurallyEqual:
  assumes "structurallyEqual (JObj a) (JObj b)"
  shows "signingMessage ns a = signingMessage ns b"
  unfolding signingMessage_def JSON_stringify_def
  using sorted_keys_dataToSign[OF assms]
    serialize_structurallyEqual[OF structurallyEqual_dataToSign[OF assms]]
  by simp

section \<open>Signature verification never throws\<close>

text \<open>
  C9. \<^verbatim>\<open>verifySolanaSignature\<close> returns a boolean on every (message, signature, public
  key): it is \<open>True\<close> exactly when both strings decode, the signature has 64 bytes, the key
  32 bytes, and the Ed25519 check passes; whenever the body of its \<^verbatim>\<open>try\<close> throws (a
  decode failure, a malformed key, a wrong size) the result is the same \<open>False\<close> as for a
  signature that does not match. The function takes no store and returns none.
\<close>

theorem verifySolanaSignature_total:
  "verifySolanaSignature L msg sig pk =
     (\<exists>sb kb. bs58_decode L sig = Some sb \<and> bs58_decode L pk = Some kb \<and>
              length sb = 64 \<and> length kb = 32 \<and>
              ed25519_verify L (TextEncoder_encode msg) sb kb) \<and>
   (isl (verifySolanaSignature_try L msg sig pk) \<longrightarrow> verifySolanaSignature L msg sig pk = False) \<and>
   (verifySolanaSignature_try L msg sig pk = Inr False \<longrightarrow>
      verifySolanaSignature L msg sig pk = False)"
  by (auto simp: verifySolanaSignature_def verifySolanaSignature_try_def PublicKey_toBytes_def
        nacl_sign_detached_verify_def split: option.splits sum.splits if_splits)

theorem verifySolanaSignature_total_witness:
  "isl (verifySolanaSignature_try sampleLibs ''m'' (''0'' @ replicate 63 (CHR ''a''))
          (replicate 32 (CHR ''a''))) \<and>
   verifySolanaSignature sampleLibs ''m'' (''0'' @ replicate 63 (CHR ''a''))
          (replicate 32 (CHR ''a'')) = False \<and>
   isl (verifySolanaSignature_try sampleLibs ''m'' (replicate 64 (CHR ''a''))
          (replicate 31 (CHR ''a''))) \<and>
   verifySolanaSignature sampleLibs ''m'' (replicate 64 (CHR ''a''))
          (replicate 31 (CHR ''a'')) = False \<and>
   verifySolanaSignature_try sampleLibs ''m'' (replicate 64 (CHR ''a''))
          (replicate 32 (CHR ''b'')) = Inr False \<and>
   verifySolanaSignature sampleLibs ''m'' (replicate 64 (CHR ''a''))
          (replicate 32 (CHR ''b'')) = False \<and>
   verifySolanaSignature sampleLibs ''m'' (replicate 64 (CHR ''a''))
          (replicate 32 (CHR ''a'')) = True"
proof -
  have t1: "isl (verifySolanaSignature_try sampleLibs ''m'' (''0'' @ replicate 63 (CHR ''a''))
          (replicate 32 (CHR ''a'')))"
    by (simp add: verifySolanaSignature_try_def sampleLibs_def)
  have t2: "isl (verifySolanaSignature_try sampleLibs ''m'' (replicate 64 (CHR ''a''))
          (replicate 31 (CHR ''a'')))"
    by (simp add: verifySolanaSignature_try_def PublicKey_toBytes_def sampleLibs_def)
  have t3: "verifySolanaSignature_try sampleLibs ''m'' (replicate 64 (CHR ''a''))
          (replicate 32 (CHR ''b'')) = Inr False"
    by (simp add: verifySolanaSignature_try_def PublicKey_toBytes_def
          nacl_sign_detached_verify_def sampleLibs_def)
  have t4: "verifySolanaSignature sampleLibs ''m'' (replicate 64 (CHR ''a''))
          (replicate 32 (CHR ''a'')) = True"
    by (simp add: verifySolanaSignature_def verifySolanaSignature_try_def PublicKey_toBytes_def
          nacl_sign_detached_verify_def sampleLibs_def)
  from t1 t2 t3 t4
    verifySolanaSignature_total[of sampleLibs "''m''" "''0'' @ replicate 63 (CHR ''a'')"
      "replicate 32 (CHR ''a'')"]
    verifySolanaSignature_total[of sampleLibs "''m''" "replicate 64 (CHR ''a'')"
      "replicate 31 (CHR ''a'')"]
    verifySolanaSignature_total[of sampleLibs "''m''" "replicate 64 (CHR ''a'')"
      "replicate 32 (CHR ''b'')"]
  show ?thesis by blast
qed

section \<open>Facts about the store operations\<close>

lemma find_None_all: "find P xs = None \<longleftrightarrow> (\<forall>x \<in> set xs. \<not> P x)"
  by (induction xs) auto

lemma find_Some_id: "find (\<lambda>c. c_id c = i) xs = Some c \<Longrightarrow> c_id c = i \<and> c \<in> set xs"
  by (induction xs) (auto split: if_splits)

lemma getCasinoById_None:
  "getCasinoById db i = None \<longleftrightarrow> (\<forall>c \<in> set (casino db). c_id c \<noteq> i)"
  by (simp add: getCasinoById_def prisma_casino_findUnique_id_def find_None_all)

lemma c_id_applyUpdate: "c_id (applyUpdate now d c) = c_id c"
  by (simp add: applyUpdate_def)

lemma c_publicKey_applyUpdate: "c_publicKey (applyUpdate now d c) = c_publicKey c"
  by (simp add: applyUpdate_def)

lemma find_map_same_id:
  "find (\<lambda>c. c_id c = i) (map (\<lambda>r. if c_id r = i then applyUpdate now d r else r) xs)
     = map_option (applyUpdate now d) (find (\<lambda>c. c_id c = i) xs)"
  by (induction xs) (auto simp: c_id_applyUpdate)

lemma find_map_keeping_id:
  assumes "\<And>r. c_id (g r) = c_id r"
  shows "find (\<lambda>c. c_id c = i) (map (\<lambda>r. if c_id r = i then g r else r) xs)
           = map_option g (find (\<lambda>c. c_id c = i) xs)"
  by (induction xs) (auto simp: assms)

lemma publicKeys_map_applyUpdate:
  "map c_publicKey (map (\<lambda>r. if P r then applyUpdate now d r else r) xs) = map c_publicKey xs"
  by (induction xs) (auto simp: c_publicKey_applyUpdate)

lemma applyUpdate_heartbeat:
  "applyUpdate now (noChange\<lparr>set_status := Some s, set_lastHeartbeat := Some t\<rparr>) c
     = c\<lparr>c_status := s, c_lastHeartbeat := Some t, c_updatedAt := now\<rparr>"
  by (simp add: applyUpdate_def noChange_def keep_def keepNullable_def)

lemma applyUpdate_offline:
  "applyUpdate now (noChange\<lparr>set_status := Some ''offline''\<rparr>) c
     = c\<lparr>c_status := ''offline'', c_updatedAt := now\<rparr>"
  by (simp add: applyUpdate_def noChange_def keep_def keepNullable_def)

lemma prisma_casino_update_publicKeys:
  "map c_publicKey (casino (snd (prisma_casino_update now db i d))) = map c_publicKey (casino db)"
proof (cases "prisma_casino_findUnique_id db i")
  case None
  then show ?thesis by (simp add: prisma_casino_update_def)
next
  case (Some c)
  have "casino (snd (prisma_casino_update now db i d))
      = map (\<lambda>r. if c_id r = i then applyUpdate now d r else r) (casino db)"
    using Some by (simp add: prisma_casino_update_def)
  then show ?thesis by (simp only: publicKeys_map_applyUpdate)
qed

lemma prisma_heartbeat_create_casino:
  "casino (snd (prisma_heartbeat_create db row)) = casino db"
  by (simp add: prisma_heartbeat_create_def)

lemmas sample_defs = sampleLibs_def sampleKey_def sampleSignature_def sampleCasino_def
  unseenCasino_def freshCasino_def offlineCasino_def emptyDb_def sampleDb_def twoCasinos_def
  fourCasinos_def sampleRegistration_def sampleHeartbeat_def sampleUpdate_def noFilters_def

lemmas verify_defs = verifySolanaSignature_def verifySolanaSignature_try_def
  PublicKey_toBytes_def nacl_sign_detached_verify_def isValidSolanaPublicKey_def

lemmas register_defs = register_route_def RegistrationRequestSchema_parse_def optionalOk_def
  verifyRegistrationSignature_def verify_defs Let_def registerCasino_def
  prisma_casino_findUnique_publicKey_def prisma_casino_create_def

lemmas heartbeat_defs = updateHeartbeat_def prisma_heartbeat_create_def prisma_casino_update_def
  prisma_casino_findUnique_id_def applyUpdate_def noChange_def keep_def
  keepNullable_def

section \<open>Heartbeat for an unknown participant\<close>

text \<open>
  C4. When no stored participant has the id of the heartbeat, the heartbeat handler
  replies 404 \<^verbatim>\<open>CASINO_NOT_FOUND\<close>, whatever the libraries, the clock and the rest of the
  body are; it makes no call of \<^verbatim>\<open>verifySolanaSignature\<close> and leaves the store as it was.
  \<^verbatim>\<open>updateHeartbeat\<close> itself throws \<^verbatim>\<open>CASINO_NOT_FOUND\<close> and leaves the store as it was.
\<close>

theorem heartbeat_unknown_id_not_found:
  assumes "\<forall>c \<in> set (casino db). c_id c \<noteq> p_casinoId body"
  shows "heartbeat_route L now uuid db body =
           ((404, Failure ''CASINO_NOT_FOUND'' ''Casino not found'' now), db, []) \<and>
         updateHeartbeat now uuid db body = (Inl (Error ''CASINO_NOT_FOUND''), db)"
proof -
  from assms have "getCasinoById db (p_casinoId body) = None"
    by (simp add: getCasinoById_None)
  moreover from assms have "prisma_casino_findUnique_id db (p_casinoId body) = None"
    by (simp add: prisma_casino_findUnique_id_def find_None_all)
  ultimately show ?thesis
    by (simp add: heartbeat_route_def updateHeartbeat_def)
qed

theorem heartbeat_unknown_id_not_found_witness:
  "p_casinoId (sampleHeartbeat\<lparr>p_casinoId := ''zz''\<rparr>) \<notin> set (map c_id (casino sampleDb)) \<and>
   heartbeat_route sampleLibs 5000 ''h1'' sampleDb (sampleHeartbeat\<lparr>p_casinoId := ''zz''\<rparr>) =
     ((404, Failure ''CASINO_NOT_FOUND'' ''Casino not found'' 5000), sampleDb, [])"
proof -
  have h: "\<forall>c \<in> set (casino sampleDb). c_id c \<noteq> p_casinoId (sampleHeartbeat\<lparr>p_casinoId := ''zz''\<rparr>)"
    by (simp add: sample_defs)
  have h': "p_casinoId (sampleHeartbeat\<lparr>p_casinoId := ''zz''\<rparr>) \<notin> set (map c_id (casino sampleDb))"
    by (simp add: sample_defs)
  from heartbeat_unknown_id_not_found[OF h, of sampleLibs 5000 "''h1''"] h'
  show ?thesis by blast
qed

section \<open>Registration\<close>

lemma registerCasino_duplicate:
  assumes "\<exists>c \<in> set (casino db). c_publicKey c = r_publicKey input"
  shows "registerCasino now uuid db input = (Inl (Error ''CASINO_ALREADY_EXISTS''), db)"
proof -
  from assms have "prisma_casino_findUnique_publicKey db (r_publicKey input) \<noteq> None"
    by (simp add: prisma_casino_findUnique_publicKey_def find_None_all)
  then show ?thesis
    by (auto simp: registerCasino_def)
qed

lemma registerCasino_failure:
  assumes "registerCasino now uuid db input = (Inl e, db')"
  shows "db' = db"
  using assms
  by (auto simp: registerCasino_def prisma_casino_create_def Let_def
        split: option.splits if_splits)

lemma registerCasino_success:
  assumes "registerCasino now uuid db input = (Inr created, db')"
  shows "\<exists>row. created = formatCasinoResponse row \<and> casino db' = casino db @ [row] \<and>
           heartbeat db' = heartbeat db \<and>
           (\<forall>c \<in> set (casino db). c_id c \<noteq> uuid \<and> c_publicKey c \<noteq> r_publicKey input) \<and>
           c_id row = uuid \<and> c_publicKey row = r_publicKey input \<and>
           c_name row = r_name input \<and> c_url row = r_url input \<and>
           c_status row = ''online'' \<and> c_lastHeartbeat row = None \<and>
           c_version row = ''1.0.0'' \<and> c_createdAt row = now \<and> c_updatedAt row = now \<and>
           c_games row = (case m_games (r_metadata input) of None \<Rightarrow> [] | Some g \<Rightarrow> g) \<and>
           c_supportedTokens row =
             (case m_supportedTokens (r_metadata input) of None \<Rightarrow> [''SOL''] | Some t \<Rightarrow> t)"
  using assms
  by (auto simp: registerCasino_def prisma_casino_create_def Let_def
        split: option.splits if_splits)

lemma parse_fields:
  assumes "RegistrationRequestSchema_parse L raw = Some body"
  shows "r_publicKey body = r_publicKey raw \<and> r_name body = r_name raw \<and>
         r_url body = r_url raw \<and>
         m_games (r_metadata body) =
           Some (case m_games (r_metadata raw) of None \<Rightarrow> [] | Some g \<Rightarrow> g) \<and>
         m_supportedTokens (r_metadata body) =
           Some (case m_supportedTokens (r_metadata raw) of None \<Rightarrow> [''SOL''] | Some t \<Rightarrow> t)"
  using assms
  by (auto simp: RegistrationRequestSchema_parse_def Let_def split: if_splits)

lemma verifyRegistrationSignature_status:
  "verifyRegistrationSignature L now body = (Some reply, calls) \<Longrightarrow> fst reply \<in> {400, 401}"
  by (auto simp: verifyRegistrationSignature_def Let_def split: if_splits)

text \<open>
  Every run of the registration route either answers with a status other than 201 and
  leaves the store untouched, or is a successful \<^verbatim>\<open>registerCasino\<close> on the parsed body.
\<close>

lemma register_route_result:
  assumes "register_route L now uuid db raw = (reply, db', calls)"
  shows "(fst reply \<in> {400, 401, 404, 409, 500} \<and> db' = db) \<or>
         (\<exists>body created. RegistrationRequestSchema_parse L raw = Some body \<and>
            registerCasino now uuid db body = (Inr created, db') \<and>
            reply = (201, Success created now))"
proof (cases "RegistrationRequestSchema_parse L raw")
  case None
  with assms show ?thesis by (auto simp: register_route_def)
next
  case parsed: (Some body)
  obtain r cs where pre:
    "(verifyRegistrationSignature L now body :: CasinoMetadata reply option \<times> verification list)
       = (r, cs)"
    by (cases "verifyRegistrationSignature L now body
                 :: CasinoMetadata reply option \<times> verification list")
  show ?thesis
  proof (cases r)
    case (Some rep)
    with pre parsed assms have "reply = rep" "db' = db"
      by (auto simp: register_route_def)
    moreover have "fst rep \<in> {400, 401}"
      using verifyRegistrationSignature_status pre Some by blast
    ultimately show ?thesis by auto
  next
    case None
    obtain res db1 where rc: "registerCasino now uuid db body = (res, db1)"
      by (cases "registerCasino now uuid db body")
    show ?thesis
    proof (cases res)
      case (Inl e)
      with rc have "db1 = db" by (auto dest: registerCasino_failure)
      moreover have "fst (errorHandler now e :: CasinoMetadata reply) \<in> {401, 404, 409, 500}"
        by (simp add: errorHandler_def Let_def)
      ultimately show ?thesis
        using assms pre None rc Inl parsed
        by (auto simp: register_route_def split: if_splits)
    next
      case (Inr created)
      then show ?thesis
        using assms pre None rc parsed by (auto simp: register_route_def)
    qed
  qed
qed

lemma register_route_duplicate:
  assumes dup: "\<exists>c \<in> set (casino db). c_publicKey c = r_publicKey raw"
      and run: "register_route L now uuid db raw = (reply, db', calls)"
  shows "fst reply \<in> {400, 401, 409} \<and> db' = db"
proof (cases "RegistrationRequestSchema_parse L raw")
  case None
  with run show ?thesis by (auto simp: register_route_def)
next
  case parsed: (Some body)
  then have "r_publicKey body = r_publicKey raw" by (simp add: parse_fields)
  with dup have rc: "registerCasino now uuid db body = (Inl (Error ''CASINO_ALREADY_EXISTS''), db)"
    by (intro registerCasino_duplicate) simp
  obtain r cs where pre:
    "(verifyRegistrationSignature L now body :: CasinoMetadata reply option \<times> verification list)
       = (r, cs)"
    by (cases "verifyRegistrationSignature L now body
                 :: CasinoMetadata reply option \<times> verification list")
  show ?thesis
  proof (cases r)
    case (Some rep)
    with pre parsed run have "reply = rep" "db' = db"
      by (auto simp: register_route_def)
    moreover have "fst rep \<in> {400, 401}"
      using verifyRegistrationSignature_status pre Some by blast
    ultimately show ?thesis by auto
  next
    case None
    with pre parsed run rc show ?thesis
      by (auto simp: register_route_def)
  qed
qed

lemma registerCasino_keeps_keys_distinct:
  assumes "distinct (map c_publicKey (casino db))"
  shows "distinct (map c_publicKey (casino (snd (registerCasino now uuid db input))))"
proof -
  obtain res db' where rc: "registerCasino now uuid db input = (res, db')"
    by (cases "registerCasino now uuid db input")
  have "distinct (map c_publicKey (casino db'))"
  proof (cases res)
    case (Inl e)
    with rc have "db' = db" by (auto dest: registerCasino_failure)
    with assms show ?thesis by simp
  next
    case (Inr created)
    with rc obtain row where "casino db' = casino db @ [row]"
      and "c_publicKey row = r_publicKey input"
      and "\<forall>c \<in> set (casino db). c_id c \<noteq> uuid \<and> c_publicKey c \<noteq> r_publicKey input"
      using registerCasino_success[of now uuid db input created db'] by blast
    with assms show ?thesis by auto
  qed
  with rc show ?thesis by simp
qed

lemma register_route_keeps_keys_distinct:
  assumes "distinct (map c_publicKey (casino db))"
  shows "distinct (map c_publicKey (casino (fst (snd (register_route L now uuid db raw)))))"
proof -
  obtain reply db' calls where run: "register_route L now uuid db raw = (reply, db', calls)"
    by (cases "register_route L now uuid db raw") auto
  from register_route_result[OF run] have "distinct (map c_publicKey (casino db'))"
  proof
    assume "fst reply \<in> {400, 401, 404, 409, 500} \<and> db' = db"
    with assms show ?thesis by simp
  next
    assume "\<exists>body created. RegistrationRequestSchema_parse L raw = Some body \<and>
            registerCasino now uuid db body = (Inr created, db') \<and>
            reply = (201, Success created now)"
    then obtain body created where "registerCasino now uuid db body = (Inr created, db')"
      by blast
    with registerCasino_keeps_keys_distinct[OF assms, of now uuid body] show ?thesis by simp
  qed
  with run show ?thesis by simp
qed

lemma updateHeartbeat_publicKeys:
  "map c_publicKey (casino (snd (updateHeartbeat now uuid db input))) = map c_publicKey (casino db)"
proof -
  have upd: "map c_publicKey (casino db2) = map c_publicKey (casino db1)"
    if "prisma_casino_update now db1 i d = (r, db2)" for db1 db2 i d r
    using prisma_casino_update_publicKeys[of now db1 i d] that by simp
  have cre: "casino db1 = casino db" if "prisma_heartbeat_create db row = (r, db1)" for db1 row r
    using prisma_heartbeat_create_casino[of db row] that by simp
  show ?thesis
    by (auto simp: updateHeartbeat_def split: option.splits prod.splits sum.splits
          dest!: upd cre)
qed

lemma updateCasino_publicKeys:
  "map c_publicKey (casino (snd (updateCasino now db input))) = map c_publicKey (casino db)"
proof -
  have upd: "map c_publicKey (casino db2) = map c_publicKey (casino db1)"
    if "prisma_casino_update now db1 i d = (r, db2)" for db1 db2 i d r
    using prisma_casino_update_publicKeys[of now db1 i d] that by simp
  show ?thesis
    by (auto simp: updateCasino_def split: option.splits prod.splits sum.splits dest!: upd)
qed

lemma markInactiveCasinos_publicKeys:
  "map c_publicKey (casino (snd (markInactiveCasinos now timeoutMinutes db)))
     = map c_publicKey (casino db)"
proof -
  have "casino (snd (markInactiveCasinos now timeoutMinutes db))
      = map (\<lambda>r. if inactiveWhere (now - timeoutMinutes * 60 * 1000) r
                   then applyUpdate now (noChange\<lparr>set_status := Some ''offline''\<rparr>) r else r)
            (casino db)"
    by (simp add: markInactiveCasinos_def prisma_casino_updateMany_def Let_def)
  then show ?thesis by (simp only: publicKeys_map_applyUpdate)
qed

text \<open>
  C5. A registration whose public key already belongs to a stored participant makes
  \<^verbatim>\<open>registerCasino\<close> throw \<^verbatim>\<open>CASINO_ALREADY_EXISTS\<close> with the store untouched, and the
  route answers 400, 401 or 409 (409 once the schema and the signature pre-handler have
  let the request through), never 201. Every failed \<^verbatim>\<open>registerCasino\<close> and every reply
  of the route other than 201 leaves the store exactly as it was; a 201 appends exactly
  one participant. If the stored public keys are pairwise distinct, they still are after
  any registration, heartbeat, update or sweep.
\<close>

theorem registration_public_key_unique:
  "((\<exists>c \<in> set (casino db). c_publicKey c = r_publicKey input) \<longrightarrow>
      registerCasino now uuid db input = (Inl (Error ''CASINO_ALREADY_EXISTS''), db) \<and>
      fst (fst (register_route L now uuid db input)) \<in> {400, 401, 409} \<and>
      fst (snd (register_route L now uuid db input)) = db) \<and>
   (isl (fst (registerCasino now uuid db input)) \<longrightarrow>
      snd (registerCasino now uuid db input) = db) \<and>
   (fst (fst (register_route L now uuid db input)) \<noteq> 201 \<longrightarrow>
      fst (snd (register_route L now uuid db input)) = db) \<and>
   (fst (fst (register_route L now uuid db input)) = 201 \<longrightarrow>
      (\<exists>row. casino (fst (snd (register_route L now uuid db input))) = casino db @ [row])) \<and>
   (distinct (map c_publicKey (casino db)) \<longrightarrow>
      distinct (map c_publicKey (casino (snd (registerCasino now uuid db input)))) \<and>
      distinct (map c_publicKey (casino (fst (snd (register_route L now uuid db input))))) \<and>
      distinct (map c_publicKey (casino (snd (updateHeartbeat now uuid db hb)))) \<and>
      distinct (map c_publicKey (casino (snd (updateCasino now db upd)))) \<and>
      distinct (map c_publicKey (casino (snd (markInactiveCasinos now timeoutMinutes db)))))"
proof -
  obtain reply db' calls where run: "register_route L now uuid db input = (reply, db', calls)"
    by (cases "register_route L now uuid db input") auto
  obtain res db1 where rc: "registerCasino now uuid db input = (res, db1)"
    by (cases "registerCasino now uuid db input")
  have a: "(\<exists>c \<in> set (casino db). c_publicKey c = r_publicKey input) \<longrightarrow>
      registerCasino now uuid db input = (Inl (Error ''CASINO_ALREADY_EXISTS''), db) \<and>
      fst (fst (register_route L now uuid db input)) \<in> {400, 401, 409} \<and>
      fst (snd (register_route L now uuid db input)) = db"
    using registerCasino_duplicate[of db input now uuid]
      register_route_duplicate[OF _ run] run by auto
  have b: "isl (fst (registerCasino now uuid db input)) \<longrightarrow>
      snd (registerCasino now uuid db input) = db"
    using rc registerCasino_failure[of now uuid db input _ db1] by (cases res) auto
  have c: "fst (fst (register_route L now uuid db input)) \<noteq> 201 \<longrightarrow>
      fst (snd (register_route L now uuid db input)) = db"
    using register_route_result[OF run] run by auto
  have d: "fst (fst (register_route L now uuid db input)) = 201 \<longrightarrow>
      (\<exists>row. casino (fst (snd (register_route L now uuid db input))) = casino db @ [row])"
  proof
    assume "fst (fst (register_route L now uuid db input)) = 201"
    with register_route_result[OF run] run obtain body created
      where "registerCasino now uuid db body = (Inr created, db')" by auto
    from registerCasino_success[OF this] run
    show "\<exists>row. casino (fst (snd (register_route L now uuid db input))) = casino db @ [row]"
      by auto
  qed
  have e: "distinct (map c_publicKey (casino db)) \<longrightarrow>
      distinct (map c_publicKey (casino (snd (registerCasino now uuid db input)))) \<and>
      distinct (map c_publicKey (casino (fst (snd (register_route L now uuid db input))))) \<and>
      distinct (map c_publicKey (casino (snd (updateHeartbeat now uuid db hb)))) \<and>
      distinct (map c_publicKey (casino (snd (updateCasino now db upd)))) \<and>
      distinct (map c_publicKey (casino (snd (markInactiveCasinos now timeoutMinutes db))))"
    using registerCasino_keeps_keys_distinct[of db now uuid input]
      register_route_keeps_keys_distinct[of db L now uuid input]
    by (simp add: updateHeartbeat_publicKeys updateCasino_publicKeys
          markInactiveCasinos_publicKeys)
  from a b c d e show ?thesis by (intro conjI)
qed

theorem registration_public_key_unique_witness:
  "(\<exists>c \<in> set (casino sampleDb). c_publicKey c = r_publicKey sampleRegistration) \<and>
   registerCasino 7 ''c9'' sampleDb sampleRegistration =
     (Inl (Error ''CASINO_ALREADY_EXISTS''), sampleDb) \<and>
   register_route sampleLibs 7 ''c9'' sampleDb sampleRegistration =
     ((409, Failure ''CASINO_ALREADY_EXISTS''
              ''Casino with this public key is already registered'' 7),
      sampleDb,
      snd (verifyRegistrationSignature sampleLibs 7
             (the (RegistrationRequestSchema_parse sampleLibs sampleRegistration))
           :: CasinoMetadata reply option \<times> verification list)) \<and>
   distinct (map c_publicKey (casino sampleDb)) \<and>
   fst (fst (register_route sampleLibs 7 ''c9'' emptyDb sampleRegistration)) = 201 \<and>
   map c_publicKey (casino (fst (snd (register_route sampleLibs 7 ''c9'' emptyDb sampleRegistration))))
     = [sampleKey]"
proof -
  have dup: "\<exists>c \<in> set (casino sampleDb). c_publicKey c = r_publicKey sampleRegistration"
    by (simp add: sample_defs)
  have route: "register_route sampleLibs 7 ''c9'' sampleDb sampleRegistration =
     ((409, Failure ''CASINO_ALREADY_EXISTS''
              ''Casino with this public key is already registered'' 7),
      sampleDb,
      snd (verifyRegistrationSignature sampleLibs 7
             (the (RegistrationRequestSchema_parse sampleLibs sampleRegistration))
           :: CasinoMetadata reply option \<times> verification list))"
    by (simp add: register_defs sample_defs)
  have dist: "distinct (map c_publicKey (casino sampleDb))"
    by (simp add: sample_defs)
  have ok: "fst (fst (register_route sampleLibs 7 ''c9'' emptyDb sampleRegistration)) = 201"
    by (simp add: register_defs sample_defs)
  have keys: "map c_publicKey
      (casino (fst (snd (register_route sampleLibs 7 ''c9'' emptyDb sampleRegistration))))
     = [sampleKey]"
    by (simp add: register_defs sample_defs)
  from registration_public_key_unique[of sampleDb sampleRegistration 7 "''c9''" sampleLibs
      sampleHeartbeat sampleUpdate 10] dup route dist ok keys
  show ?thesis by blast
qed

text \<open>
  C8. A successful registration stores one new participant with status \<^verbatim>\<open>online\<close>, no
  \<^verbatim>\<open>lastHeartbeat\<close>, version \<^verbatim>\<open>1.0.0\<close>, the games of the request or the empty list when
  the request has none, and the supported tokens of the request or the one-element list
  \<^verbatim>\<open>['SOL']\<close> when the request has none; the reply is that record. This holds for
  \<^verbatim>\<open>registerCasino\<close> on a parsed body and for the whole route on the body as sent.
\<close>

theorem registration_creates_online_record:
  "(registerCasino now uuid db input = (Inr created, db1) \<longrightarrow>
      (\<exists>row. casino db1 = casino db @ [row] \<and> heartbeat db1 = heartbeat db \<and>
         created = formatCasinoResponse row \<and>
         c_status row = ''online'' \<and> c_lastHeartbeat row = None \<and> c_version row = ''1.0.0'' \<and>
         c_games row = (case m_games (r_metadata input) of None \<Rightarrow> [] | Some g \<Rightarrow> g) \<and>
         c_supportedTokens row =
           (case m_supportedTokens (r_metadata input) of None \<Rightarrow> [''SOL''] | Some t \<Rightarrow> t) \<and>
         c_id row = uuid \<and> c_publicKey row = r_publicKey input \<and>
         c_createdAt row = now \<and> c_updatedAt row = now)) \<and>
   (register_route L now uuid db raw = ((201, resp), db2, calls) \<longrightarrow>
      (\<exists>row. casino db2 = casino db @ [row] \<and> heartbeat db2 = heartbeat db \<and>
         resp = Success (formatCasinoResponse row) now \<and>
         c_status row = ''online'' \<and> c_lastHeartbeat row = None \<and> c_version row = ''1.0.0'' \<and>
         c_games row = (case m_games (r_metadata raw) of None \<Rightarrow> [] | Some g \<Rightarrow> g) \<and>
         c_supportedTokens row =
           (case m_supportedTokens (r_metadata raw) of None \<Rightarrow> [''SOL''] | Some t \<Rightarrow> t) \<and>
         c_id row = uuid \<and> c_publicKey row = r_publicKey raw \<and>
         c_createdAt row = now \<and> c_updatedAt row = now))"
proof (intro conjI impI)
  assume "registerCasino now uuid db input = (Inr created, db1)"
  from registerCasino_success[OF this]
  show "\<exists>row. casino db1 = casino db @ [row] \<and> heartbeat db1 = heartbeat db \<and>
         created = formatCasinoResponse row \<and>
         c_status row = ''online'' \<and> c_lastHeartbeat row = None \<and> c_version row = ''1.0.0'' \<and>
         c_games row = (case m_games (r_metadata input) of None \<Rightarrow> [] | Some g \<Rightarrow> g) \<and>
         c_supportedTokens row =
           (case m_supportedTokens (r_metadata input) of None \<Rightarrow> [''SOL''] | Some t \<Rightarrow> t) \<and>
         c_id row = uuid \<and> c_publicKey row = r_publicKey input \<and>
         c_createdAt row = now \<and> c_updatedAt row = now"
    by blast
next
  assume run: "register_route L now uuid db raw = ((201, resp), db2, calls)"
  with register_route_result[OF run] obtain body cr
    where parsed: "RegistrationRequestSchema_parse L raw = Some body"
      and rc: "registerCasino now uuid db body = (Inr cr, db2)"
      and resp: "resp = Success cr now"
    by auto
  from registerCasino_success[OF rc] obtain row where row:
    "cr = formatCasinoResponse row" "casino db2 = casino db @ [row]"
    "heartbeat db2 = heartbeat db" "c_id row = uuid" "c_publicKey row = r_publicKey body"
    "c_status row = ''online''" "c_lastHeartbeat row = None" "c_version row = ''1.0.0''"
    "c_createdAt row = now" "c_updatedAt row = now"
    "c_games row = (case m_games (r_metadata body) of None \<Rightarrow> [] | Some g \<Rightarrow> g)"
    "c_supportedTokens row =
       (case m_supportedTokens (r_metadata body) of None \<Rightarrow> [''SOL''] | Some t \<Rightarrow> t)"
    by blast
  from parse_fields[OF parsed] row(11,12)
  have "c_games row = (case m_games (r_metadata raw) of None \<Rightarrow> [] | Some g \<Rightarrow> g)"
    and "c_supportedTokens row =
       (case m_supportedTokens (r_metadata raw) of None \<Rightarrow> [''SOL''] | Some t \<Rightarrow> t)"
    and "c_publicKey row = r_publicKey raw"
    using row(5) by simp_all
  with row resp
  show "\<exists>row. casino db2 = casino db @ [row] \<and> heartbeat db2 = heartbeat db \<and>
         resp = Success (formatCasinoResponse row) now \<and>
         c_status row = ''online'' \<and> c_lastHeartbeat row = None \<and> c_version row = ''1.0.0'' \<and>
         c_games row = (case m_games (r_metadata raw) of None \<Rightarrow> [] | Some g \<Rightarrow> g) \<and>
         c_supportedTokens row =
           (case m_supportedTokens (r_metadata raw) of None \<Rightarrow> [''SOL''] | Some t \<Rightarrow> t) \<and>
         c_id row = uuid \<and> c_publicKey row = r_publicKey raw \<and>
         c_createdAt row = now \<and> c_updatedAt row = now"
    by (intro exI[of _ row]) simp
qed

theorem registration_creates_online_record_witness:
  "fst (register_route sampleLibs 7 ''c9'' emptyDb sampleRegistration) =
     (201, Success (formatCasinoResponse
        \<lparr> c_id = ''c9'', c_publicKey = sampleKey, c_name = ''Ace'', c_url = ''https://ace.example'',
          c_status = ''online'', c_description = Some ''first'', c_games = [],
          c_logo = None, c_banner = None, c_twitterUrl = None,
          c_discordUrl = None, c_telegramUrl = None, c_websiteUrl = None,
          c_maxBetAmount = None, c_minBetAmount = None, c_supportedTokens = [''SOL''],
          c_version = ''1.0.0'', c_createdAt = 7, c_updatedAt = 7, c_lastHeartbeat = None \<rparr>) 7) \<and>
   map c_status (casino (fst (snd (register_route sampleLibs 7 ''c9'' emptyDb sampleRegistration))))
     = [''online''] \<and>
   map c_lastHeartbeat
     (casino (fst (snd (register_route sampleLibs 7 ''c9'' emptyDb sampleRegistration)))) = [None] \<and>
   map c_games
     (casino (fst (snd (register_route sampleLibs 7 ''c9'' emptyDb sampleRegistration)))) = [[]] \<and>
   map c_supportedTokens
     (casino (fst (snd (register_route sampleLibs 7 ''c9'' emptyDb sampleRegistration))))
     = [[''SOL'']]"
proof -
  let ?run = "register_route sampleLibs 7 ''c9'' emptyDb sampleRegistration"
  have reply: "fst ?run =
     (201, Success (formatCasinoResponse
        \<lparr> c_id = ''c9'', c_publicKey = sampleKey, c_name = ''Ace'', c_url = ''https://ace.example'',
          c_status = ''online'', c_description = Some ''first'', c_games = [],
          c_logo = None, c_banner = None, c_twitterUrl = None,
          c_discordUrl = None, c_telegramUrl = None, c_websiteUrl = None,
          c_maxBetAmount = None, c_minBetAmount = None, c_supportedTokens = [''SOL''],
          c_version = ''1.0.0'', c_createdAt = 7, c_updatedAt = 7, c_lastHeartbeat = None \<rparr>) 7)"
    by (simp add: register_defs sample_defs)
  then have run: "?run = ((201, snd (fst ?run)), fst (snd ?run), snd (snd ?run))"
    by (metis fst_conv prod.collapse)
  have empty: "casino emptyDb = []" by (simp add: emptyDb_def)
  have none: "m_games (r_metadata sampleRegistration) = None"
     "m_supportedTokens (r_metadata sampleRegistration) = None"
    by (simp_all add: sampleRegistration_def)
  from registration_creates_online_record[of 7 "''c9''" emptyDb sampleRegistration
      "formatCasinoResponse sampleCasino" emptyDb sampleLibs sampleRegistration
      "snd (fst ?run)" "fst (snd ?run)" "snd (snd ?run)"] run
  obtain row where "casino (fst (snd ?run)) = casino emptyDb @ [row]"
    and "c_status row = ''online''" and "c_lastHeartbeat row = None"
    and "c_games row = (case m_games (r_metadata sampleRegistration) of None \<Rightarrow> [] | Some g \<Rightarrow> g)"
    and "c_supportedTokens row =
      (case m_supportedTokens (r_metadata sampleRegistration) of None \<Rightarrow> [''SOL''] | Some t \<Rightarrow> t)"
    by blast
  with empty none reply show ?thesis by simp
qed

section \<open>Heartbeats\<close>

lemma updateHeartbeat_accepted:
  assumes "updateHeartbeat now uuid db input = (Inr ack, db')"
  shows "(\<exists>c. prisma_casino_findUnique_id db (p_casinoId input) = Some c) \<and>
         heartbeat db' = heartbeat db @
           [\<lparr> h_id = uuid, h_casinoId = p_casinoId input, h_status = p_status input,
              h_activePlayers = Option.bind (p_metrics input) activePlayers,
              h_totalBets24h = Option.bind (p_metrics input) totalBets24h,
              h_uptime = Option.bind (p_metrics input) uptime,
              h_responseTime = Option.bind (p_metrics input) responseTime,
              h_timestamp = p_timestamp input, h_signature = p_signature input \<rparr>] \<and>
         casino db' = map (\<lambda>r. if c_id r = p_casinoId input
                                then r\<lparr>c_status := p_status input,
                                       c_lastHeartbeat := Some (p_timestamp input),
                                       c_updatedAt := now\<rparr>
                                else r) (casino db) \<and>
         ack = \<lparr> hr_success = True, hr_timestamp = now, hr_nextHeartbeatIn = Some 60 \<rparr>"
proof -
  from assms obtain c where c: "prisma_casino_findUnique_id db (p_casinoId input) = Some c"
    by (auto simp: updateHeartbeat_def split: option.splits)
  then have cid: "c_id c = p_casinoId input"
    by (auto simp: prisma_casino_findUnique_id_def dest: find_Some_id)
  from assms c cid show ?thesis
    by (auto simp: updateHeartbeat_def prisma_heartbeat_create_def prisma_casino_update_def
          prisma_casino_findUnique_id_def applyUpdate_heartbeat
          split: if_splits option.splits sum.splits prod.splits)
qed

text \<open>
  C2, as the code has it. An accepted heartbeat appends one heartbeat row whose
  \<^verbatim>\<open>timestamp\<close> is the timestamp carried in the payload, and sets the participant's
  \<^verbatim>\<open>lastHeartbeat\<close> to that same payload timestamp and its status to the claimed status.
  The server's clock is used for \<^verbatim>\<open>updatedAt\<close> and for the timestamp of the
  acknowledgement only.
\<close>

theorem heartbeat_records_payload_timestamp:
  assumes "updateHeartbeat now uuid db input = (Inr ack, db')"
  shows "(\<exists>hb. heartbeat db' = heartbeat db @ [hb] \<and>
               h_timestamp hb = p_timestamp input \<and> h_status hb = p_status input \<and>
               h_casinoId hb = p_casinoId input \<and> h_signature hb = p_signature input) \<and>
         (\<exists>c. prisma_casino_findUnique_id db (p_casinoId input) = Some c \<and>
              prisma_casino_findUnique_id db' (p_casinoId input) =
                Some (c\<lparr>c_status := p_status input,
                        c_lastHeartbeat := Some (p_timestamp input),
                        c_updatedAt := now\<rparr>)) \<and>
         hr_timestamp ack = now"
proof -
  note acc = updateHeartbeat_accepted[OF assms]
  from acc obtain c where c: "prisma_casino_findUnique_id db (p_casinoId input) = Some c"
    by blast
  from acc have cas: "casino db' =
      map (\<lambda>r. if c_id r = p_casinoId input
                then r\<lparr>c_status := p_status input,
                       c_lastHeartbeat := Some (p_timestamp input), c_updatedAt := now\<rparr>
                else r) (casino db)"
    by simp
  have "prisma_casino_findUnique_id db' (p_casinoId input) =
          Some (c\<lparr>c_status := p_status input, c_lastHeartbeat := Some (p_timestamp input),
                  c_updatedAt := now\<rparr>)"
    using c unfolding prisma_casino_findUnique_id_def cas
    by (simp add: find_map_keeping_id)
  with c acc show ?thesis by auto
qed

theorem heartbeat_records_payload_timestamp_witness:
  "updateHeartbeat 5000 ''h1'' sampleDb sampleHeartbeat =
     (Inr \<lparr> hr_success = True, hr_timestamp = 5000, hr_nextHeartbeatIn = Some 60 \<rparr>,
      snd (updateHeartbeat 5000 ''h1'' sampleDb sampleHeartbeat)) \<and>
   prisma_casino_findUnique_id (snd (updateHeartbeat 5000 ''h1'' sampleDb sampleHeartbeat)) ''c1'' =
     Some (sampleCasino\<lparr>c_status := ''maintenance'', c_lastHeartbeat := Some 1000,
                        c_updatedAt := 5000\<rparr>)"
proof -
  have run: "updateHeartbeat 5000 ''h1'' sampleDb sampleHeartbeat =
     (Inr \<lparr> hr_success = True, hr_timestamp = 5000, hr_nextHeartbeatIn = Some 60 \<rparr>,
      snd (updateHeartbeat 5000 ''h1'' sampleDb sampleHeartbeat))"
    by (simp add: heartbeat_defs sample_defs)
  have found: "prisma_casino_findUnique_id sampleDb (p_casinoId sampleHeartbeat) = Some sampleCasino"
    by (simp add: prisma_casino_findUnique_id_def sample_defs)
  have flds: "p_casinoId sampleHeartbeat = ''c1''" "p_status sampleHeartbeat = ''maintenance''"
    "p_timestamp sampleHeartbeat = 1000"
    by (simp_all add: sampleHeartbeat_def)
  from heartbeat_records_payload_timestamp[OF run] found flds run
  show ?thesis by auto
qed

text \<open>
  The claim as the specification states it fails: with the server clock at 5000 and a
  payload timestamp of 1000, the accepted heartbeat is stored with timestamp 1000 and the
  participant's \<^verbatim>\<open>lastHeartbeat\<close> becomes 1000, not 5000.
\<close>

theorem heartbeat_server_time_counterexample:
  "isl (fst (updateHeartbeat 5000 ''h1'' sampleDb sampleHeartbeat)) = False \<and>
   map h_timestamp (heartbeat (snd (updateHeartbeat 5000 ''h1'' sampleDb sampleHeartbeat)))
     = [1000] \<and>
   map h_timestamp (heartbeat (snd (updateHeartbeat 5000 ''h1'' sampleDb sampleHeartbeat)))
     \<noteq> [5000] \<and>
   map c_lastHeartbeat (casino (snd (updateHeartbeat 5000 ''h1'' sampleDb sampleHeartbeat)))
     = [Some 1000] \<and>
   map c_lastHeartbeat (casino (snd (updateHeartbeat 5000 ''h1'' sampleDb sampleHeartbeat)))
     \<noteq> [Some 5000]"
  by (simp add: heartbeat_defs sample_defs)

section \<open>Discovery list\<close>

lemma descNullsFirst_total: "descNullsFirst a b \<or> descNullsFirst b a"
  by (cases a; cases b) auto

lemma descNullsFirst_trans: "descNullsFirst a b \<Longrightarrow> descNullsFirst b c \<Longrightarrow> descNullsFirst a c"
  by (cases a; cases b; cases c) auto

lemma set_insertRow: "set (insertRow r xs) = insert r (set xs)"
  by (induction xs) auto

lemma mset_insertRow: "mset (insertRow r xs) = add_mset r (mset xs)"
  by (induction xs) auto

lemma sorted_insertRow:
  "sorted_wrt (\<lambda>a b. descNullsFirst (c_lastHeartbeat a) (c_lastHeartbeat b)) xs \<Longrightarrow>
   sorted_wrt (\<lambda>a b. descNullsFirst (c_lastHeartbeat a) (c_lastHeartbeat b)) (insertRow r xs)"
proof (induction xs)
  case Nil
  then show ?case by simp
next
  case (Cons x xs)
  show ?case
  proof (cases "descNullsFirst (c_lastHeartbeat r) (c_lastHeartbeat x)")
    case True
    with Cons.prems show ?thesis by (auto intro: descNullsFirst_trans)
  next
    case False
    then have "descNullsFirst (c_lastHeartbeat x) (c_lastHeartbeat r)"
      using descNullsFirst_total by blast
    with False Cons show ?thesis by (auto simp: set_insertRow)
  qed
qed

lemma sorted_orderBy:
  "sorted_wrt (\<lambda>a b. descNullsFirst (c_lastHeartbeat a) (c_lastHeartbeat b))
     (orderBy_lastHeartbeat_desc rows)"
  unfolding orderBy_lastHeartbeat_desc_def
  by (induction rows) (auto intro: sorted_insertRow)

lemma mset_orderBy: "mset (orderBy_lastHeartbeat_desc rows) = mset rows"
  unfolding orderBy_lastHeartbeat_desc_def
  by (induction rows) (auto simp: mset_insertRow)

lemma o_lastHeartbeat_format: "o_lastHeartbeat (formatCasinoResponse c) = c_lastHeartbeat c"
  by (simp add: formatCasinoResponse_def)

lemmas list_defs = getCasinos_def prisma_casino_findMany_def prisma_casino_count_def
  orderBy_lastHeartbeat_desc_def filtersWhere_def Let_def formatCasinoResponse_def

text \<open>
  C3, as the code has it. The page of a list query is a window (\<^verbatim>\<open>offset\<close>, \<^verbatim>\<open>limit\<close>)
  of all the records matching the filters, ordered by descending \<^verbatim>\<open>lastHeartbeat\<close> with
  the never-seen participants (\<^verbatim>\<open>NULL\<close>) \<^emph>\<open>first\<close>; so the page itself is in that order;
  and \<^verbatim>\<open>total\<close> is the number of all matching records, whatever the window.
\<close>

theorem getCasinos_page_and_total:
  "\<exists>ordered.
     mset ordered = mset (filter (filtersWhere filters) (casino db)) \<and>
     sorted_wrt (\<lambda>a b. descNullsFirst (c_lastHeartbeat a) (c_lastHeartbeat b)) ordered \<and>
     l_casinos (getCasinos db filters) =
       map formatCasinoResponse (take (f_limit filters) (drop (f_offset filters) ordered)) \<and>
     sorted_wrt descNullsFirst (map o_lastHeartbeat (l_casinos (getCasinos db filters))) \<and>
     l_total (getCasinos db filters) = length (filter (filtersWhere filters) (casino db)) \<and>
     l_total (getCasinos db filters) = length ordered"
proof -
  let ?ordered = "orderBy_lastHeartbeat_desc (filter (filtersWhere filters) (casino db))"
  let ?le = "\<lambda>a b. descNullsFirst (c_lastHeartbeat a) (c_lastHeartbeat b)"
  have m: "mset ?ordered = mset (filter (filtersWhere filters) (casino db))"
    by (rule mset_orderBy)
  have s: "sorted_wrt ?le ?ordered" by (rule sorted_orderBy)
  have page: "l_casinos (getCasinos db filters) =
       map formatCasinoResponse (take (f_limit filters) (drop (f_offset filters) ?ordered))"
    by (simp add: getCasinos_def prisma_casino_findMany_def Let_def)
  have "sorted_wrt ?le (take (f_limit filters) (drop (f_offset filters) ?ordered))"
    using s by (intro sorted_wrt_take sorted_wrt_drop)
  then have sp: "sorted_wrt descNullsFirst (map o_lastHeartbeat (l_casinos (getCasinos db filters)))"
    unfolding page by (simp add: sorted_wrt_map comp_def o_lastHeartbeat_format)
  have t: "l_total (getCasinos db filters) = length (filter (filtersWhere filters) (casino db))"
    by (simp add: getCasinos_def prisma_casino_count_def Let_def)
  have "length ?ordered = length (filter (filtersWhere filters) (casino db))"
    using m by (metis size_mset)
  with m s page sp t show ?thesis by (intro exI[of _ ?ordered]) simp
qed

theorem getCasinos_page_and_total_witness:
  "map o_id (l_casinos (getCasinos fourCasinos (noFilters\<lparr>f_limit := 2\<rparr>))) = [''c2'', ''c3''] \<and>
   map o_id (l_casinos (getCasinos fourCasinos (noFilters\<lparr>f_limit := 2, f_offset := 2\<rparr>)))
     = [''c1'', ''c4''] \<and>
   l_total (getCasinos fourCasinos (noFilters\<lparr>f_limit := 2\<rparr>)) = 4 \<and>
   l_total (getCasinos fourCasinos (noFilters\<lparr>f_limit := 2, f_offset := 2\<rparr>)) = 4 \<and>
   sorted_wrt descNullsFirst
     (map o_lastHeartbeat (l_casinos (getCasinos fourCasinos (noFilters\<lparr>f_limit := 2\<rparr>))))"
proof -
  have ev: "map o_id (l_casinos (getCasinos fourCasinos (noFilters\<lparr>f_limit := 2\<rparr>)))
             = [''c2'', ''c3'']"
    "map o_id (l_casinos (getCasinos fourCasinos (noFilters\<lparr>f_limit := 2, f_offset := 2\<rparr>)))
       = [''c1'', ''c4'']"
    "l_total (getCasinos fourCasinos (noFilters\<lparr>f_limit := 2\<rparr>)) = 4"
    "l_total (getCasinos fourCasinos (noFilters\<lparr>f_limit := 2, f_offset := 2\<rparr>)) = 4"
    by (simp_all add: list_defs sample_defs)
  from getCasinos_page_and_total[of "noFilters\<lparr>f_limit := 2\<rparr>" fourCasinos] ev
  show ?thesis by blast
qed

text \<open>
  The claim as the specification states it fails: with one participant last seen at 100
  and one never seen, the page lists the never-seen participant first, which is not the
  order "descending, unseen last".
\<close>

theorem getCasinos_unseen_last_counterexample:
  "map o_id (l_casinos (getCasinos twoCasinos noFilters)) = [''c2'', ''c1''] \<and>
   map o_lastHeartbeat (l_casinos (getCasinos twoCasinos noFilters)) = [None, Some 100] \<and>
   \<not> sorted_wrt descNullsLast (map o_lastHeartbeat (l_casinos (getCasinos twoCasinos noFilters)))"
  by (simp add: list_defs sample_defs)

section \<open>Updates\<close>

lemma updateCasino_found:
  assumes "prisma_casino_findUnique_id db (u_casinoId input) = Some c"
  shows "updateCasino now db input =
           (Inr (formatCasinoResponse (applyUpdate now (updateData_of input) c)),
            db\<lparr>casino := map (\<lambda>r. if c_id r = u_casinoId input
                                   then applyUpdate now (updateData_of input) r else r)
                              (casino db)\<rparr>)"
proof -
  from assms have "c_id c = u_casinoId input"
    by (auto simp: prisma_casino_findUnique_id_def dest: find_Some_id)
  with assms show ?thesis
    by (simp add: updateCasino_def prisma_casino_update_def)
qed

text \<open>
  C6. An update of a stored participant returns and stores the record in which every
  updatable field (\<^verbatim>\<open>name\<close>, \<^verbatim>\<open>url\<close>, \<^verbatim>\<open>status\<close>, each field of \<^verbatim>\<open>metadata\<close> and each
  link of \<^verbatim>\<open>metadata.socialLinks\<close>) has the input's value when the input has that field
  and its prior value when it has not; \<^verbatim>\<open>id\<close>, \<^verbatim>\<open>publicKey\<close>, \<^verbatim>\<open>createdAt\<close>, \<^verbatim>\<open>version\<close>
  and \<^verbatim>\<open>lastHeartbeat\<close> keep their values, on this and on every other row; rows with
  another id are not touched; the heartbeat table is not touched. (The store refreshes
  \<^verbatim>\<open>updatedAt\<close> of the updated row.)
\<close>

theorem updateCasino_partial_merge:
  assumes "prisma_casino_findUnique_id db (u_casinoId input) = Some c"
      and "updateCasino now db input = (res, db')"
  shows "\<exists>c'. res = Inr (formatCasinoResponse c') \<and>
           prisma_casino_findUnique_id db' (u_casinoId input) = Some c' \<and>
           c_id c' = c_id c \<and> c_publicKey c' = c_publicKey c \<and>
           c_createdAt c' = c_createdAt c \<and> c_version c' = c_version c \<and>
           c_lastHeartbeat c' = c_lastHeartbeat c \<and>
           c_name c' = (case u_name input of None \<Rightarrow> c_name c | Some v \<Rightarrow> v) \<and>
           c_url c' = (case u_url input of None \<Rightarrow> c_url c | Some v \<Rightarrow> v) \<and>
           c_status c' = (case u_status input of None \<Rightarrow> c_status c | Some v \<Rightarrow> v) \<and>
           c_description c' =
             (case Option.bind (u_metadata input) m_description of
                None \<Rightarrow> c_description c | Some v \<Rightarrow> Some v) \<and>
           c_games c' =
             (case Option.bind (u_metadata input) m_games of
                None \<Rightarrow> c_games c | Some v \<Rightarrow> v) \<and>
           c_logo c' =
             (case Option.bind (u_metadata input) m_logo of
                None \<Rightarrow> c_logo c | Some v \<Rightarrow> Some v) \<and>
           c_banner c' =
             (case Option.bind (u_metadata input) m_banner of
                None \<Rightarrow> c_banner c | Some v \<Rightarrow> Some v) \<and>
           c_twitterUrl c' =
             (case Option.bind (Option.bind (u_metadata input) m_socialLinks) twitter of
                None \<Rightarrow> c_twitterUrl c | Some v \<Rightarrow> Some v) \<and>
           c_discordUrl c' =
             (case Option.bind (Option.bind (u_metadata input) m_socialLinks) discord of
                None \<Rightarrow> c_discordUrl c | Some v \<Rightarrow> Some v) \<and>
           c_telegramUrl c' =
             (case Option.bind (Option.bind (u_metadata input) m_socialLinks) telegram of
                None \<Rightarrow> c_telegramUrl c | Some v \<Rightarrow> Some v) \<and>
           c_websiteUrl c' =
             (case Option.bind (Option.bind (u_metadata input) m_socialLinks) website of
                None \<Rightarrow> c_websiteUrl c | Some v \<Rightarrow> Some v) \<and>
           c_maxBetAmount c' =
             (case Option.bind (u_metadata input) m_maxBetAmount of
                None \<Rightarrow> c_maxBetAmount c | Some v \<Rightarrow> Some v) \<and>
           c_minBetAmount c' =
             (case Option.bind (u_metadata input) m_minBetAmount of
                None \<Rightarrow> c_minBetAmount c | Some v \<Rightarrow> Some v) \<and>
           c_supportedTokens c' =
             (case Option.bind (u_metadata input) m_supportedTokens of
                None \<Rightarrow> c_supportedTokens c | Some v \<Rightarrow> v) \<and>
           map c_id (casino db') = map c_id (casino db) \<and>
           map c_publicKey (casino db') = map c_publicKey (casino db) \<and>
           map c_createdAt (casino db') = map c_createdAt (casino db) \<and>
           map c_version (casino db') = map c_version (casino db) \<and>
           map c_lastHeartbeat (casino db') = map c_lastHeartbeat (casino db) \<and>
           (\<forall>i < length (casino db). c_id (casino db ! i) \<noteq> u_casinoId input \<longrightarrow>
                casino db' ! i = casino db ! i) \<and>
           heartbeat db' = heartbeat db"
proof -
  let ?c' = "applyUpdate now (updateData_of input) c"
  from updateCasino_found[OF assms(1), of now] assms(2)
  have res: "res = Inr (formatCasinoResponse ?c')"
    and db': "db' = db\<lparr>casino := map (\<lambda>r. if c_id r = u_casinoId input
                                   then applyUpdate now (updateData_of input) r else r)
                              (casino db)\<rparr>"
    by simp_all
  have found: "prisma_casino_findUnique_id db' (u_casinoId input) = Some ?c'"
    using assms(1) unfolding db' prisma_casino_findUnique_id_def
    by (simp add: find_map_same_id)
  have fields: "c_id ?c' = c_id c" "c_publicKey ?c' = c_publicKey c"
    "c_createdAt ?c' = c_createdAt c" "c_version ?c' = c_version c"
    "c_lastHeartbeat ?c' = c_lastHeartbeat c"
    by (simp_all add: applyUpdate_def updateData_of_def Let_def keepNullable_def)
  have merged:
    "c_name ?c' = (case u_name input of None \<Rightarrow> c_name c | Some v \<Rightarrow> v)"
    "c_url ?c' = (case u_url input of None \<Rightarrow> c_url c | Some v \<Rightarrow> v)"
    "c_status ?c' = (case u_status input of None \<Rightarrow> c_status c | Some v \<Rightarrow> v)"
    "c_description ?c' =
       (case Option.bind (u_metadata input) m_description of
          None \<Rightarrow> c_description c | Some v \<Rightarrow> Some v)"
    "c_games ?c' =
       (case Option.bind (u_metadata input) m_games of None \<Rightarrow> c_games c | Some v \<Rightarrow> v)"
    "c_logo ?c' =
       (case Option.bind (u_metadata input) m_logo of None \<Rightarrow> c_logo c | Some v \<Rightarrow> Some v)"
    "c_banner ?c' =
       (case Option.bind (u_metadata input) m_banner of None \<Rightarrow> c_banner c | Some v \<Rightarrow> Some v)"
    "c_twitterUrl ?c' =
       (case Option.bind (Option.bind (u_metadata input) m_socialLinks) twitter of
          None \<Rightarrow> c_twitterUrl c | Some v \<Rightarrow> Some v)"
    "c_discordUrl ?c' =
       (case Option.bind (Option.bind (u_metadata input) m_socialLinks) discord of
          None \<Rightarrow> c_discordUrl c | Some v \<Rightarrow> Some v)"
    "c_telegramUrl ?c' =
       (case Option.bind (Option.bind (u_metadata input) m_socialLinks) telegram of
          None \<Rightarrow> c_telegramUrl c | Some v \<Rightarrow> Some v)"
    "c_websiteUrl ?c' =
       (case Option.bind (Option.bind (u_metadata input) m_socialLinks) website of
          None \<Rightarrow> c_websiteUrl c | Some v \<Rightarrow> Some v)"
    "c_maxBetAmount ?c' =
       (case Option.bind (u_metadata input) m_maxBetAmount of
          None \<Rightarrow> c_maxBetAmount c | Some v \<Rightarrow> Some v)"
    "c_minBetAmount ?c' =
       (case Option.bind (u_metadata input) m_minBetAmount of
          None \<Rightarrow> c_minBetAmount c | Some v \<Rightarrow> Some v)"
    "c_supportedTokens ?c' =
       (case Option.bind (u_metadata input) m_supportedTokens of
          None \<Rightarrow> c_supportedTokens c | Some v \<Rightarrow> v)"
    by (simp_all add: applyUpdate_def updateData_of_def Let_def keep_def keepNullable_def)
  have frame: "map c_id (casino db') = map c_id (casino db)"
    "map c_publicKey (casino db') = map c_publicKey (casino db)"
    "map c_createdAt (casino db') = map c_createdAt (casino db)"
    "map c_version (casino db') = map c_version (casino db)"
    "map c_lastHeartbeat (casino db') = map c_lastHeartbeat (casino db)"
    unfolding db'
    by (simp_all add: applyUpdate_def updateData_of_def Let_def keepNullable_def comp_def)
  have others: "\<forall>i < length (casino db). c_id (casino db ! i) \<noteq> u_casinoId input \<longrightarrow>
                casino db' ! i = casino db ! i"
    unfolding db' by simp
  have hb: "heartbeat db' = heartbeat db" unfolding db' by simp
  show ?thesis
    apply (rule exI[of _ ?c'])
    using res found fields merged frame others hb by (simp only: simp_thms)
qed

theorem updateCasino_partial_merge_witness:
  "prisma_casino_findUnique_id sampleDb (u_casinoId sampleUpdate) = Some sampleCasino \<and>
   casino (snd (updateCasino 77 sampleDb sampleUpdate)) =
     [sampleCasino\<lparr>c_description := Some ''second'', c_updatedAt := 77\<rparr>] \<and>
   map c_games (casino (snd (updateCasino 77 sampleDb sampleUpdate))) = [[''slots'', ''dice'']] \<and>
   map c_twitterUrl (casino (snd (updateCasino 77 sampleDb sampleUpdate)))
     = [Some ''https://t.example/ace''] \<and>
   map c_publicKey (casino (snd (updateCasino 77 sampleDb sampleUpdate)))
     = map c_publicKey (casino sampleDb)"
proof -
  have found: "prisma_casino_findUnique_id sampleDb (u_casinoId sampleUpdate) = Some sampleCasino"
    by (simp add: prisma_casino_findUnique_id_def sample_defs)
  have run: "updateCasino 77 sampleDb sampleUpdate =
      (fst (updateCasino 77 sampleDb sampleUpdate), snd (updateCasino 77 sampleDb sampleUpdate))"
    by simp
  have ev: "casino (snd (updateCasino 77 sampleDb sampleUpdate)) =
     [sampleCasino\<lparr>c_description := Some ''second'', c_updatedAt := 77\<rparr>]"
    by (simp add: updateCasino_def prisma_casino_update_def prisma_casino_findUnique_id_def
          updateData_of_def applyUpdate_def keep_def keepNullable_def Let_def sample_defs)
  have vals: "map c_games [sampleCasino\<lparr>c_description := Some ''second'', c_updatedAt := 77\<rparr>]
                = [[''slots'', ''dice'']]"
    "map c_twitterUrl [sampleCasino\<lparr>c_description := Some ''second'', c_updatedAt := 77\<rparr>]
                = [Some ''https://t.example/ace'']"
    by (simp_all add: sample_defs)
  from updateCasino_partial_merge[OF found run]
  have "map c_publicKey (casino (snd (updateCasino 77 sampleDb sampleUpdate)))
          = map c_publicKey (casino sampleDb)"
    by blast
  with found ev vals show ?thesis by simp
qed

section \<open>The inactivity sweep\<close>

lemma inactiveWhere_spec:
  "inactiveWhere (now - timeoutMinutes * 60 * 1000) c =
     seenBeforeCutoffAndNotOffline now timeoutMinutes c"
  by (auto simp: inactiveWhere_def seenBeforeCutoffAndNotOffline_def split: option.splits)

lemma markInactiveCasinos_eq:
  "markInactiveCasinos now timeoutMinutes db =
     (length (filter (seenBeforeCutoffAndNotOffline now timeoutMinutes) (casino db)),
      db\<lparr>casino := map (\<lambda>r. if seenBeforeCutoffAndNotOffline now timeoutMinutes r
                             then r\<lparr>c_status := ''offline'', c_updatedAt := now\<rparr> else r)
                        (casino db)\<rparr>)"
proof -
  have "inactiveWhere (now - timeoutMinutes * 60 * 1000)
          = seenBeforeCutoffAndNotOffline now timeoutMinutes"
    by (rule ext) (rule inactiveWhere_spec)
  then show ?thesis
    by (simp add: markInactiveCasinos_def prisma_casino_updateMany_def Let_def applyUpdate_offline)
qed

lemma count_changed_status:
  "length (filter (\<lambda>p. c_status (fst p) \<noteq> c_status (snd p))
     (zip xs (map (\<lambda>r. if P r then r\<lparr>c_status := ''offline'', c_updatedAt := now\<rparr> else r) xs)))
   = length (filter (\<lambda>r. P r \<and> c_status r \<noteq> ''offline'') xs)"
  by (induction xs) auto

lemmas sweep_defs = markInactiveCasinos_def prisma_casino_updateMany_def inactiveWhere_def
  applyUpdate_def noChange_def keep_def keepNullable_def Let_def
  seenBeforeCutoffAndNotOffline_def

text \<open>
  C7. One run of the sweep with a timeout of \<open>timeoutMinutes\<close> returns the number of
  participants whose \<^verbatim>\<open>lastHeartbeat\<close> is older than now minus the timeout and whose
  status is not \<^verbatim>\<open>offline\<close>; that number is also the number of participants whose status
  the run changed. Exactly those participants become \<^verbatim>\<open>offline\<close> (all their other
  fields kept, \<^verbatim>\<open>updatedAt\<close> refreshed by the store); every other participant, in
  particular one seen within the window and one already offline, is left as it was.
\<close>

theorem markInactiveCasinos_sweep:
  assumes "markInactiveCasinos now timeoutMinutes db = (n, db')"
  shows "n = length (filter (seenBeforeCutoffAndNotOffline now timeoutMinutes) (casino db)) \<and>
         n = length (filter (\<lambda>p. c_status (fst p) \<noteq> c_status (snd p))
                       (zip (casino db) (casino db'))) \<and>
         length (casino db') = length (casino db) \<and>
         (\<forall>i < length (casino db).
            (seenBeforeCutoffAndNotOffline now timeoutMinutes (casino db ! i) \<longrightarrow>
               casino db' ! i = (casino db ! i)\<lparr>c_status := ''offline'', c_updatedAt := now\<rparr>) \<and>
            (\<not> seenBeforeCutoffAndNotOffline now timeoutMinutes (casino db ! i) \<longrightarrow>
               casino db' ! i = casino db ! i)) \<and>
         heartbeat db' = heartbeat db"
proof -
  let ?P = "seenBeforeCutoffAndNotOffline now timeoutMinutes"
  from assms have n: "n = length (filter ?P (casino db))"
    and db': "db' = db\<lparr>casino := map (\<lambda>r. if ?P r
                             then r\<lparr>c_status := ''offline'', c_updatedAt := now\<rparr> else r)
                        (casino db)\<rparr>"
    by (simp_all add: markInactiveCasinos_eq)
  have "(\<lambda>r. ?P r \<and> c_status r \<noteq> ''offline'') = ?P"
    by (auto simp: seenBeforeCutoffAndNotOffline_def)
  then have changed: "n = length (filter (\<lambda>p. c_status (fst p) \<noteq> c_status (snd p))
                       (zip (casino db) (casino db')))"
    unfolding n db' by (simp add: count_changed_status)
  from n changed show ?thesis unfolding db' by simp
qed

theorem markInactiveCasinos_sweep_witness:
  "markInactiveCasinos 1000000 10 fourCasinos =
     (1, fourCasinos\<lparr>casino :=
           [sampleCasino\<lparr>c_status := ''offline'', c_updatedAt := 1000000\<rparr>,
            freshCasino, offlineCasino, unseenCasino]\<rparr>) \<and>
   seenBeforeCutoffAndNotOffline 1000000 10 (casino fourCasinos ! 0) \<and>
   \<not> seenBeforeCutoffAndNotOffline 1000000 10 (casino fourCasinos ! 1) \<and>
   \<not> seenBeforeCutoffAndNotOffline 1000000 10 (casino fourCasinos ! 2) \<and>
   length (filter (\<lambda>p. c_status (fst p) \<noteq> c_status (snd p))
     (zip (casino fourCasinos)
        [sampleCasino\<lparr>c_status := ''offline'', c_updatedAt := 1000000\<rparr>,
         freshCasino, offlineCasino, unseenCasino])) = 1"
proof -
  have run: "markInactiveCasinos 1000000 10 fourCasinos =
     (1, fourCasinos\<lparr>casino :=
           [sampleCasino\<lparr>c_status := ''offline'', c_updatedAt := 1000000\<rparr>,
            freshCasino, offlineCasino, unseenCasino]\<rparr>)"
    by (simp add: sweep_defs sample_defs)
  have st: "seenBeforeCutoffAndNotOffline 1000000 10 (casino fourCasinos ! 0)"
    "\<not> seenBeforeCutoffAndNotOffline 1000000 10 (casino fourCasinos ! 1)"
    "\<not> seenBeforeCutoffAndNotOffline 1000000 10 (casino fourCasinos ! 2)"
    by (simp_all add: seenBeforeCutoffAndNotOffline_def sample_defs)
  from markInactiveCasinos_sweep[OF run]
  have "1 = length (filter (\<lambda>p. c_status (fst p) \<noteq> c_status (snd p))
     (zip (casino fourCasinos)
        (casino (fourCasinos\<lparr>casino :=
           [sampleCasino\<lparr>c_status := ''offline'', c_updatedAt := 1000000\<rparr>,
            freshCasino, offlineCasino, unseenCasino]\<rparr>))))"
    by blast
  with run st show ?thesis by simp
qed

text \<open>
  C10. A participant with no \<^verbatim>\<open>lastHeartbeat\<close> is left exactly as it was by the sweep,
  whatever its status, its creation time and the timeout are, and it is not counted: the
  run returns the same number as a run on the store without the never-seen participants.
\<close>

theorem markInactiveCasinos_never_seen:
  assumes "markInactiveCasinos now timeoutMinutes db = (n, db')"
  shows "(\<forall>i < length (casino db). c_lastHeartbeat (casino db ! i) = None \<longrightarrow>
            casino db' ! i = casino db ! i) \<and>
         n = fst (markInactiveCasinos now timeoutMinutes
                    (db\<lparr>casino := filter (\<lambda>c. c_lastHeartbeat c \<noteq> None) (casino db)\<rparr>))"
proof -
  let ?P = "seenBeforeCutoffAndNotOffline now timeoutMinutes"
  from assms have n: "n = length (filter ?P (casino db))"
    and db': "db' = db\<lparr>casino := map (\<lambda>r. if ?P r
                             then r\<lparr>c_status := ''offline'', c_updatedAt := now\<rparr> else r)
                        (casino db)\<rparr>"
    by (simp_all add: markInactiveCasinos_eq)
  have notP: "c_lastHeartbeat c = None \<Longrightarrow> \<not> ?P c" for c
    by (simp add: seenBeforeCutoffAndNotOffline_def)
  have "(c_lastHeartbeat c \<noteq> None \<and> ?P c) = ?P c" for c
    using notP[of c] by (cases "c_lastHeartbeat c") simp_all
  then have "(\<lambda>c. c_lastHeartbeat c \<noteq> None \<and> ?P c) = ?P"
    by (intro ext)
  then have "filter ?P (filter (\<lambda>c. c_lastHeartbeat c \<noteq> None) (casino db)) = filter ?P (casino db)"
    by (simp del: not_None_eq)
  then have "n = fst (markInactiveCasinos now timeoutMinutes
                    (db\<lparr>casino := filter (\<lambda>c. c_lastHeartbeat c \<noteq> None) (casino db)\<rparr>))"
    unfolding n by (simp add: markInactiveCasinos_eq)
  moreover have "\<forall>i < length (casino db). c_lastHeartbeat (casino db ! i) = None \<longrightarrow>
            casino db' ! i = casino db ! i"
    unfolding db' using notP by simp
  ultimately show ?thesis by simp
qed

theorem markInactiveCasinos_never_seen_witness:
  "c_lastHeartbeat (casino fourCasinos ! 3) = None \<and>
   c_status (casino fourCasinos ! 3) = ''online'' \<and>
   c_createdAt (casino fourCasinos ! 3) = 10 \<and>
   casino (snd (markInactiveCasinos 1000000 10 fourCasinos)) ! 3 = casino fourCasinos ! 3 \<and>
   fst (markInactiveCasinos 1000000 10 fourCasinos) = 1 \<and>
   fst (markInactiveCasinos 1000000 10
          (fourCasinos\<lparr>casino := [sampleCasino, freshCasino, offlineCasino]\<rparr>)) = 1"
proof -
  have row: "c_lastHeartbeat (casino fourCasinos ! 3) = None"
    "c_status (casino fourCasinos ! 3) = ''online''"
    "c_createdAt (casino fourCasinos ! 3) = 10"
    "(3::nat) < length (casino fourCasinos)"
    by (simp_all add: sample_defs)
  have run: "markInactiveCasinos 1000000 10 fourCasinos =
      (fst (markInactiveCasinos 1000000 10 fourCasinos),
       snd (markInactiveCasinos 1000000 10 fourCasinos))"
    by simp
  have cnt: "fst (markInactiveCasinos 1000000 10 fourCasinos) = 1"
    "fst (markInactiveCasinos 1000000 10
          (fourCasinos\<lparr>casino := [sampleCasino, freshCasino, offlineCasino]\<rparr>)) = 1"
    by (simp_all add: sweep_defs sample_defs)
  from markInactiveCasinos_never_seen[OF run] row
  have "casino (snd (markInactiveCasinos 1000000 10 fourCasinos)) ! 3 = casino fourCasinos ! 3"
    by blast
  with row cnt show ?thesis by simp
qed

section \<open>The signed message and the nested fields of the payload\<close>
















end
